theory Spec2Isabelle
  imports Complex_Main
begin

section \<open>Strings and numbers\<close>

text \<open>
  A JavaScript string is modelled as a \<^typ>\<open>string\<close>, one \<^typ>\<open>char\<close> for each UTF-16 code
  unit. The char with code \<open>n\<close> stands for the code unit \<open>n\<close>, with two exceptions: the
  char 181 stands for U+039C and the char 255 for U+0178. These are the capitals of
  U+00B5 and U+00FF, the only two letters below U+0100 whose capital is not below
  U+0100; with them in place of the two small letters the 256 code units are closed
  under \<open>toUpperCase\<close>, and \<open>trim\<close>, \<open>toUpperCase\<close>, \<open>length\<close>, \<open>split\<close> and
  \<open>includes\<close> are the functions of JavaScript on them. Strings with other code units
  are not represented.

  JavaScript numbers that stand for prices are modelled as \<^typ>\<open>real\<close>. In a number
  option, \<open>None\<close> is \<open>undefined\<close> for an argument and a value that is not a finite number
  (\<open>NaN\<close>, an infinity) for the result of a computation. Instants (\<open>Date\<close>,
  \<open>Date.now()\<close>) are milliseconds as \<^typ>\<open>int\<close>.
\<close>

text \<open>
  White space and line terminators, which \<open>trim\<close> removes: U+0009 to U+000D, U+0020
  and U+00A0.
\<close>

definition isWhiteSpace :: "char \<Rightarrow> bool" where
  "isWhiteSpace c =
     (let n = (of_char c :: nat) in (9 \<le> n \<and> n \<le> 13) \<or> n = 32 \<or> n = 160)"

definition trim :: "string \<Rightarrow> string" where
  "trim s = rev (dropWhile isWhiteSpace (rev (dropWhile isWhiteSpace s)))"

text \<open>
  The upper case of one code unit: U+00DF becomes \<open>SS\<close>; the small letters U+0061 to
  U+007A, U+00E0 to U+00F6 and U+00F8 to U+00FE become the capitals 32 below them;
  every other code unit stays.
\<close>

definition toUpperChars :: "char \<Rightarrow> string" where
  "toUpperChars c =
     (let n = (of_char c :: nat)
      in if n = 223 then ''SS''
         else if (97 \<le> n \<and> n \<le> 122) \<or> (224 \<le> n \<and> n \<le> 246) \<or> (248 \<le> n \<and> n \<le> 254)
         then [char_of (n - 32)]
         else [c])"

definition toUpperCase :: "string \<Rightarrow> string" where
  "toUpperCase s = concat (map toUpperChars s)"

definition isUpperAZ :: "char \<Rightarrow> bool" where
  "isUpperAZ c = (let n = (of_char c :: nat) in 65 \<le> n \<and> n \<le> 90)"

text \<open>The regular expression \<^verbatim>\<open>/^[A-Z]{1,5}$/\<close> of \<open>isValidStockSymbol\<close>.\<close>

definition symbolRegex_test :: "string \<Rightarrow> bool" where
  "symbolRegex_test s = (1 \<le> length s \<and> length s \<le> 5 \<and> list_all isUpperAZ s)"

definition isValidStockSymbol :: "string \<Rightarrow> bool" where
  "isValidStockSymbol symbol = symbolRegex_test (toUpperCase symbol)"

definition normalizeSymbol :: "string \<Rightarrow> string" where
  "normalizeSymbol symbol = toUpperCase (trim symbol)"

text \<open>\<open>String.prototype.split\<close> on a one-character separator, and \<open>Array.prototype.join\<close>.\<close>

fun split_on :: "char \<Rightarrow> string \<Rightarrow> string list" where
  "split_on sep [] = [[]]"
| "split_on sep (c # cs) =
     (if c = sep then [] # split_on sep cs
      else (case split_on sep cs of
              [] \<Rightarrow> [[c]]
            | w # ws \<Rightarrow> (c # w) # ws))"

fun join :: "string \<Rightarrow> string list \<Rightarrow> string" where
  "join sep [] = []"
| "join sep [x] = x"
| "join sep (x # y # ys) = x @ sep @ join sep (y # ys)"

text \<open>\<open>String.prototype.includes\<close>.\<close>

fun str_includes :: "string \<Rightarrow> string \<Rightarrow> bool" where
  "str_includes [] sub = (sub = [])"
| "str_includes (c # cs) sub = (take (length sub) (c # cs) = sub \<or> str_includes cs sub)"

text \<open>A number is truthy in JavaScript when it is defined, not zero and not NaN.\<close>

definition truthy :: "real option \<Rightarrow> bool" where
  "truthy x = (case x of None \<Rightarrow> False | Some v \<Rightarrow> v \<noteq> 0)"

section \<open>Data model\<close>

datatype AlertCondition = ABOVE | BELOW

text \<open>The rows of the Prisma schema. Generated \<open>cuid\<close> keys are plain strings.\<close>

record Alert =
  a_id :: string
  a_symbol :: string
  a_targetPrice :: real
  a_condition :: AlertCondition
  a_isActive :: bool
  a_createdAt :: int
  a_updatedAt :: int

record TriggeredAlert =
  t_id :: string
  t_alertId :: string
  t_symbol :: string
  t_targetPrice :: real
  t_actualPrice :: real
  t_condition :: AlertCondition
  t_triggeredAt :: int
  t_isRead :: bool

record DeviceToken =
  d_id :: string
  d_token :: string
  d_userId :: "string option"
  d_createdAt :: int
  d_updatedAt :: int
  d_isActive :: bool

text \<open>A row of the price cache table \<open>stock_prices\<close> (its generated \<open>id\<close> is left out).\<close>

record StockPriceRow =
  r_symbol :: string
  r_price :: real
  r_updatedAt :: int

text \<open>
  The \<open>StockPrice\<close> interface. \<open>error\<close> is the extra field of the entries that
  \<open>getMultipleStockPrices\<close> builds for a failed symbol.
\<close>

record StockPrice =
  symbol :: string
  price :: real
  change :: "real option"
  changePercent :: "real option"
  timestamp :: int
  error :: "string option"

text \<open>A thrown \<open>Error\<close> with its message.\<close>

datatype Error = Error string

fun message :: "Error \<Rightarrow> string" where
  "message (Error m) = m"

record RateRecord =
  count :: int
  resetTime :: int

type_synonym RateLimitStore = "string \<Rightarrow> RateRecord option"

text \<open>
  The parts of a Yahoo chart response that \<open>fetchPriceFromAPI\<close> reads. A field of the
  JSON is absent (\<open>undefined\<close> when read), \<open>null\<close> or a number.
\<close>

datatype JsonNumber = Absent | Null | Number real

record Meta =
  regularMarketPrice :: JsonNumber
  previousClose :: JsonNumber

datatype Chart =
    NoResult \<comment> \<open>\<open>data.chart?.result?.[0]\<close> is missing\<close>
  | NoMeta \<comment> \<open>a result without \<open>meta\<close>: reading it throws a \<open>TypeError\<close>\<close>
  | Result Meta

datatype AxiosOutcome =
    Response Chart
  | AxiosError "nat option" "string option" \<comment> \<open>\<open>error.response?.status\<close>, \<open>error.code\<close>\<close>

text \<open>What \<open>messaging.sendToDevice\<close> gives: it rejects, or it reports one result per
  token, each with its \<open>error\<close> when delivery to that token failed.\<close>

datatype GatewayOutcome =
    GatewayRejects string
  | DevicesResponse "string option list"

record NotificationPayload =
  title :: string
  body :: string

text \<open>Effects on the outside world, recorded in the order they happen.\<close>

datatype event =
    RateLimitChecked string
  | CacheRead string
  | CacheUpsert string
  | QuoteRequested string
  | SentToDevice "string list"
  | AlertsDeleteMany "string list"

text \<open>
  The world outside the program: the clock (the value of the \<open>n\<close>-th reading), the quote
  provider, the push gateway, the failures of the database client and of the
  Firebase Admin SDK (\<open>Some m\<close>: the call throws an error with message \<open>m\<close>), and the
  order in which the waits of overlapping lookups end.
\<close>

record env =
  clock :: "nat \<Rightarrow> int"
  axios_get_chart :: "string \<Rightarrow> AxiosOutcome"
  findUnique_throws :: "string \<Rightarrow> string option"
  upsert_throws :: "string \<Rightarrow> string option"
  window_defined :: bool
  firebase_admin_throws :: "string option"
  sendToDevice :: "string list \<Rightarrow> NotificationPayload \<Rightarrow> GatewayOutcome"
  deleteMany_throws :: "string option"
  io_order :: "nat list"

text \<open>
  The mutable state: the module variables \<open>rateLimitStore\<close> and \<open>adminApp\<close>, the
  database tables, the number of clock readings made so far and the effects so far.
\<close>

record state =
  rateLimitStore :: RateLimitStore
  adminApp :: bool
  db_stockPrice :: "StockPriceRow list"
  db_alert :: "Alert list"
  db_triggeredAlert :: "TriggeredAlert list"
  db_deviceToken :: "DeviceToken list"
  ticks :: nat
  trace :: "event list"

definition Date_now :: "env \<Rightarrow> state \<Rightarrow> int \<times> state" where
  "Date_now e st = (clock e (ticks st), st\<lparr>ticks := Suc (ticks st)\<rparr>)"

definition emit :: "event \<Rightarrow> state \<Rightarrow> state" where
  "emit ev st = st\<lparr>trace := trace st @ [ev]\<rparr>"

section \<open>Rate limiter (yahoo_finance.ts)\<close>

definition CACHE_DURATION :: int where
  "CACHE_DURATION = 5"

definition RATE_LIMIT_REQUESTS :: int where
  "RATE_LIMIT_REQUESTS = 100"

definition RATE_LIMIT_WINDOW :: int where
  "RATE_LIMIT_WINDOW = 60 * 1000"

text \<open>
  The body of \<open>checkRateLimit\<close> with the two constants and the clock reading as
  arguments: \<open>budget\<close> is \<open>RATE_LIMIT_REQUESTS\<close>, \<open>window\<close> is \<open>RATE_LIMIT_WINDOW\<close>.
\<close>

definition checkRateLimit_at ::
  "int \<Rightarrow> int \<Rightarrow> int \<Rightarrow> string \<Rightarrow> RateLimitStore \<Rightarrow> bool \<times> RateLimitStore" where
  "checkRateLimit_at budget window now key store =
     (case store key of
        None \<Rightarrow> (True, store(key \<mapsto> \<lparr>count = 1, resetTime = now + window\<rparr>))
      | Some rec \<Rightarrow>
          if now > resetTime rec
          then (True, store(key \<mapsto> \<lparr>count = 1, resetTime = now + window\<rparr>))
          else if count rec \<ge> budget then (False, store)
          else (True, store(key \<mapsto> rec\<lparr>count := count rec + 1\<rparr>)))"

definition checkRateLimit :: "env \<Rightarrow> string \<Rightarrow> state \<Rightarrow> bool \<times> state" where
  "checkRateLimit e key st =
     (let (now, st1) = Date_now e st;
          (ok, store) =
            checkRateLimit_at RATE_LIMIT_REQUESTS RATE_LIMIT_WINDOW now key (rateLimitStore st1)
      in (ok, emit (RateLimitChecked key) (st1\<lparr>rateLimitStore := store\<rparr>)))"

text \<open>Calling the limiter several times in a row, at the given clock readings.\<close>

fun checkRateLimit_seq ::
  "int \<Rightarrow> int \<Rightarrow> string \<Rightarrow> int list \<Rightarrow> RateLimitStore \<Rightarrow> bool list" where
  "checkRateLimit_seq budget window key [] store = []"
| "checkRateLimit_seq budget window key (now # nows) store =
     (let (ok, store') = checkRateLimit_at budget window now key store
      in ok # checkRateLimit_seq budget window key nows store')"

section \<open>Price cache (yahoo_finance.ts)\<close>

definition isCacheValid :: "env \<Rightarrow> int \<Rightarrow> state \<Rightarrow> bool \<times> state" where
  "isCacheValid e updatedAt st =
     (let cacheExpiry = updatedAt + CACHE_DURATION * 60 * 1000;
          (now, st1) = Date_now e st
      in (now < cacheExpiry, st1))"

text \<open>\<open>prisma.stockPrice.findUnique\<close> on the unique column \<open>symbol\<close>.\<close>

definition stockPrice_findUnique ::
  "env \<Rightarrow> string \<Rightarrow> state \<Rightarrow> (Error + StockPriceRow option) \<times> state" where
  "stockPrice_findUnique e smb st =
     (let st1 = emit (CacheRead smb) st
      in case findUnique_throws e smb of
           Some m \<Rightarrow> (Inl (Error m), st1)
         | None \<Rightarrow> (Inr (find (\<lambda>r. r_symbol r = smb) (db_stockPrice st1)), st1))"

definition getCachedPrice :: "env \<Rightarrow> string \<Rightarrow> state \<Rightarrow> StockPrice option \<times> state" where
  "getCachedPrice e smb st =
     (case stockPrice_findUnique e (normalizeSymbol smb) st of
        (Inl err, st1) \<Rightarrow> (None, st1)
      | (Inr None, st1) \<Rightarrow> (None, st1)
      | (Inr (Some cached), st1) \<Rightarrow>
          (let (valid, st2) = isCacheValid e (r_updatedAt cached) st1
           in if valid
              then (Some \<lparr>symbol = r_symbol cached, price = r_price cached, change = None,
                          changePercent = None, timestamp = r_updatedAt cached,
                          error = None\<rparr>, st2)
              else (None, st2)))"

text \<open>
  \<open>prisma.stockPrice.upsert\<close>: the first row with the symbol gets the price and the
  instant, and a new row is added when there is none (\<open>@updatedAt\<close> of a created row is
  the instant of the write).
\<close>

fun upsert_row :: "string \<Rightarrow> real \<Rightarrow> int \<Rightarrow> StockPriceRow list \<Rightarrow> StockPriceRow list" where
  "upsert_row smb p now [] = [\<lparr>r_symbol = smb, r_price = p, r_updatedAt = now\<rparr>]"
| "upsert_row smb p now (r # rs) =
     (if r_symbol r = smb then r\<lparr>r_price := p, r_updatedAt := now\<rparr> # rs
      else r # upsert_row smb p now rs)"

definition stockPrice_upsert ::
  "env \<Rightarrow> string \<Rightarrow> real \<Rightarrow> int \<Rightarrow> state \<Rightarrow> (Error + unit) \<times> state" where
  "stockPrice_upsert e smb p now st =
     (let st1 = emit (CacheUpsert smb) st
      in case upsert_throws e smb of
           Some m \<Rightarrow> (Inl (Error m), st1)
         | None \<Rightarrow>
             (Inr (), st1\<lparr>db_stockPrice := upsert_row smb p now (db_stockPrice st1)\<rparr>))"

definition updatePriceCache :: "env \<Rightarrow> string \<Rightarrow> real \<Rightarrow> state \<Rightarrow> state" where
  "updatePriceCache e smb p st =
     (let (now, st1) = Date_now e st
      in case stockPrice_upsert e (normalizeSymbol smb) p now st1 of
           (Inl err, st2) \<Rightarrow> st2
         | (Inr u, st2) \<Rightarrow> st2)"

text \<open>What the \<open>try\<close> block of \<open>fetchPriceFromAPI\<close> can throw.\<close>

datatype thrown =
    ThrownAxios "nat option" "string option"
  | ThrownError string

text \<open>
  \<open>a || b\<close>, \<open>a - b\<close> and \<open>((a - b) / b) * 100\<close> on the fields of the response. In
  arithmetic \<open>null\<close> counts as 0 and \<open>undefined\<close> as \<open>NaN\<close>; a division by zero gives an
  infinity or \<open>NaN\<close>.
\<close>

definition json_truthy :: "JsonNumber \<Rightarrow> bool" where
  "json_truthy x = (case x of Number v \<Rightarrow> v \<noteq> 0 | _ \<Rightarrow> False)"

definition ToNumber :: "JsonNumber \<Rightarrow> real option" where
  "ToNumber x = (case x of Absent \<Rightarrow> None | Null \<Rightarrow> Some 0 | Number v \<Rightarrow> Some v)"

definition js_or :: "JsonNumber \<Rightarrow> JsonNumber \<Rightarrow> JsonNumber" where
  "js_or a b = (if json_truthy a then a else b)"

definition js_minus :: "JsonNumber \<Rightarrow> JsonNumber \<Rightarrow> real option" where
  "js_minus a b =
     (case (ToNumber a, ToNumber b) of (Some x, Some y) \<Rightarrow> Some (x - y) | _ \<Rightarrow> None)"

definition js_percent :: "JsonNumber \<Rightarrow> JsonNumber \<Rightarrow> real option" where
  "js_percent a b =
     (case (ToNumber a, ToNumber b) of
        (Some x, Some y) \<Rightarrow> if y = 0 then None else Some (((x - y) / y) * 100)
      | _ \<Rightarrow> None)"

definition fetch_try :: "env \<Rightarrow> string \<Rightarrow> state \<Rightarrow> (thrown + StockPrice) \<times> state" where
  "fetch_try e normalizedSymbol st =
     (let st1 = emit (QuoteRequested normalizedSymbol) st
      in case axios_get_chart e normalizedSymbol of
           AxiosError status code \<Rightarrow> (Inl (ThrownAxios status code), st1)
         | Response NoResult \<Rightarrow>
             (Inl (ThrownError (''No data found for symbol: '' @ normalizedSymbol)), st1)
         | Response NoMeta \<Rightarrow> (Inl (ThrownError ''TypeError''), st1)
         | Response (Result meta) \<Rightarrow>
             (case js_or (regularMarketPrice meta) (previousClose meta) of
                Absent \<Rightarrow>
                  (Inl (ThrownError
                     (''No price data available for symbol: '' @ normalizedSymbol)), st1)
              | Null \<Rightarrow>
                  (Inl (ThrownError
                     (''No price data available for symbol: '' @ normalizedSymbol)), st1)
              | Number currentPrice \<Rightarrow>
                  if currentPrice = 0
                  then (Inl (ThrownError
                     (''No price data available for symbol: '' @ normalizedSymbol)), st1)
                  else
                    (let (now, st2) = Date_now e st1;
                         stockPrice =
                           \<lparr>symbol = normalizedSymbol, price = currentPrice,
                            change = js_minus (regularMarketPrice meta) (previousClose meta),
                            changePercent =
                              js_percent (regularMarketPrice meta) (previousClose meta),
                            timestamp = now, error = None\<rparr>;
                         st3 = updatePriceCache e normalizedSymbol currentPrice st2
                     in (Inr stockPrice, st3))))"

definition fetch_catch :: "string \<Rightarrow> thrown \<Rightarrow> Error" where
  "fetch_catch normalizedSymbol t =
     (case t of
        ThrownAxios status code \<Rightarrow>
          if status = Some 404 then Error (''Stock symbol not found: '' @ normalizedSymbol)
          else if code = Some ''ECONNABORTED''
          then Error ''Request timeout - Yahoo Finance API is not responding''
          else Error (''Failed to fetch price for '' @ normalizedSymbol)
      | ThrownError m \<Rightarrow> Error (''Failed to fetch price for '' @ normalizedSymbol))"

definition fetchPriceFromAPI :: "env \<Rightarrow> string \<Rightarrow> state \<Rightarrow> (Error + StockPrice) \<times> state" where
  "fetchPriceFromAPI e smb st =
     (let normalizedSymbol = normalizeSymbol smb
      in case fetch_try e normalizedSymbol st of
           (Inr stockPrice, st1) \<Rightarrow> (Inr stockPrice, st1)
         | (Inl t, st1) \<Rightarrow> (Inl (fetch_catch normalizedSymbol t), st1))"

definition getStockPrice ::
  "env \<Rightarrow> string \<Rightarrow> bool \<Rightarrow> state \<Rightarrow> (Error + StockPrice) \<times> state" where
  "getStockPrice e smb useCache st =
     (let normalizedSymbol = normalizeSymbol smb
      in if \<not> isValidStockSymbol normalizedSymbol
         then (Inl (Error (''Invalid stock symbol format: '' @ smb)), st)
         else
           (let (allowed, st1) = checkRateLimit e ''default'' st
            in if \<not> allowed
               then (Inl (Error ''Rate limit exceeded. Please try again later.''), st1)
               else if useCache
               then (case getCachedPrice e normalizedSymbol st1 of
                       (Some cachedPrice, st2) \<Rightarrow> (Inr cachedPrice, st2)
                     | (None, st2) \<Rightarrow> fetchPriceFromAPI e normalizedSymbol st2)
               else fetchPriceFromAPI e normalizedSymbol st1))"

section \<open>Batch lookup (yahoo_finance.ts)\<close>

text \<open>
  \<open>getMultipleStockPrices\<close>: \<open>symbols.map\<close> calls \<open>getStockPrice\<close> for every symbol of
  the array before any of the calls goes on. A call runs up to its first wait: the
  symbol is validated and the limiter consulted at once, in the order of the array, and
  the call then waits for the cache read or, without the cache, for the provider. From
  there the calls overlap. A lookup of the batch is in one of these states: its promise
  is rejected and the \<open>catch\<close> handler of the array has not run yet; it waits for
  \<open>findUnique\<close> in \<open>getCachedPrice\<close> (with the argument of \<open>getCachedPrice\<close>); it waits
  for the answer of the provider (with the \<open>normalizedSymbol\<close> of \<open>fetchPriceFromAPI\<close>);
  it waits for \<open>upsert\<close> in \<open>updatePriceCache\<close> (with the \<open>stockPrice\<close> that
  \<open>fetchPriceFromAPI\<close> is about to return, and the key, the price and the instant of
  the write); or the promise of the array is fulfilled with an entry.
\<close>

datatype lookup =
    Rejected Error
  | AwaitFindUnique string
  | AwaitAxios string
  | AwaitUpsert StockPrice string real int
  | Settled StockPrice

text \<open>\<open>getStockPrice\<close> up to its first wait.\<close>

definition getStockPrice_start :: "env \<Rightarrow> string \<Rightarrow> bool \<Rightarrow> state \<Rightarrow> lookup \<times> state" where
  "getStockPrice_start e smb useCache st =
     (let normalizedSymbol = normalizeSymbol smb
      in if \<not> isValidStockSymbol normalizedSymbol
         then (Rejected (Error (''Invalid stock symbol format: '' @ smb)), st)
         else
           (let (allowed, st1) = checkRateLimit e ''default'' st
            in if \<not> allowed
               then (Rejected (Error ''Rate limit exceeded. Please try again later.''), st1)
               else if useCache
               then (AwaitFindUnique normalizedSymbol, st1)
               else (AwaitAxios (normalizeSymbol normalizedSymbol),
                     emit (QuoteRequested (normalizeSymbol normalizedSymbol)) st1)))"

text \<open>The \<open>catch\<close> handler of the array: the entry for a symbol whose lookup has failed.\<close>

definition catch_handler :: "env \<Rightarrow> string \<Rightarrow> Error \<Rightarrow> state \<Rightarrow> StockPrice \<times> state" where
  "catch_handler e smb err st =
     (let (now, st1) = Date_now e st
      in (\<lparr>symbol = normalizeSymbol smb, price = 0, change = None, changePercent = None,
           timestamp = now, error = Some (message err)\<rparr>, st1))"

text \<open>
  The cache read ends: the rest of \<open>getCachedPrice\<close>, and on a miss \<open>getStockPrice\<close>
  calls \<open>fetchPriceFromAPI\<close>, which sends its request and waits.
\<close>

definition after_findUnique :: "env \<Rightarrow> string \<Rightarrow> state \<Rightarrow> (StockPrice + string) \<times> state" where
  "after_findUnique e normalizedSymbol st =
     (case getCachedPrice e normalizedSymbol st of
        (Some cachedPrice, st1) \<Rightarrow> (Inl cachedPrice, st1)
      | (None, st1) \<Rightarrow>
          (Inr (normalizeSymbol normalizedSymbol),
           emit (QuoteRequested (normalizeSymbol normalizedSymbol)) st1))"

text \<open>
  What the \<open>try\<close> block of \<open>fetchPriceFromAPI\<close> makes of the answer of the provider:
  something thrown, or \<open>meta\<close> and \<open>currentPrice\<close>.
\<close>

definition response_price :: "env \<Rightarrow> string \<Rightarrow> thrown + Meta \<times> real" where
  "response_price e normalizedSymbol =
     (case axios_get_chart e normalizedSymbol of
        AxiosError status code \<Rightarrow> Inl (ThrownAxios status code)
      | Response NoResult \<Rightarrow>
          Inl (ThrownError (''No data found for symbol: '' @ normalizedSymbol))
      | Response NoMeta \<Rightarrow> Inl (ThrownError ''TypeError'')
      | Response (Result meta) \<Rightarrow>
          (case js_or (regularMarketPrice meta) (previousClose meta) of
             Absent \<Rightarrow>
               Inl (ThrownError (''No price data available for symbol: '' @ normalizedSymbol))
           | Null \<Rightarrow>
               Inl (ThrownError (''No price data available for symbol: '' @ normalizedSymbol))
           | Number currentPrice \<Rightarrow>
               if currentPrice = 0
               then Inl (ThrownError
                      (''No price data available for symbol: '' @ normalizedSymbol))
               else Inr (meta, currentPrice)))"

text \<open>
  The answer of the provider arrives. On a failure \<open>fetchPriceFromAPI\<close> throws, the
  promise of \<open>getStockPrice\<close> is rejected and the handler of the array makes the entry.
  On a price the \<open>stockPrice\<close> is built and \<open>updatePriceCache\<close> is called, which reads
  the clock for \<open>updatedAt\<close> and waits for the write.
\<close>

definition after_axios ::
  "env \<Rightarrow> string \<Rightarrow> string \<Rightarrow> state
     \<Rightarrow> (StockPrice + StockPrice \<times> string \<times> real \<times> int) \<times> state" where
  "after_axios e smb normalizedSymbol st =
     (case response_price e normalizedSymbol of
        Inl t \<Rightarrow>
          (case catch_handler e smb (fetch_catch normalizedSymbol t) st of
             (entry, st1) \<Rightarrow> (Inl entry, st1))
      | Inr (meta, currentPrice) \<Rightarrow>
          (let (now, st1) = Date_now e st;
               stockPrice =
                 \<lparr>symbol = normalizedSymbol, price = currentPrice,
                  change = js_minus (regularMarketPrice meta) (previousClose meta),
                  changePercent = js_percent (regularMarketPrice meta) (previousClose meta),
                  timestamp = now, error = None\<rparr>;
               (now2, st2) = Date_now e st1
           in (Inr (stockPrice, normalizeSymbol normalizedSymbol, currentPrice, now2), st2)))"

text \<open>The write ends, failed or not, and \<open>fetchPriceFromAPI\<close> returns \<open>stockPrice\<close>.\<close>

definition after_upsert ::
  "env \<Rightarrow> StockPrice \<Rightarrow> string \<Rightarrow> real \<Rightarrow> int \<Rightarrow> state \<Rightarrow> StockPrice \<times> state" where
  "after_upsert e stockPrice smb p now st =
     (case stockPrice_upsert e smb p now st of
        (Inl err, st1) \<Rightarrow> (stockPrice, st1)
      | (Inr u, st1) \<Rightarrow> (stockPrice, st1))"

text \<open>One lookup goes on until its next wait.\<close>

definition resume :: "env \<Rightarrow> string \<Rightarrow> lookup \<Rightarrow> state \<Rightarrow> lookup \<times> state" where
  "resume e smb l st =
     (case l of
        Rejected err \<Rightarrow>
          (case catch_handler e smb err st of (entry, st1) \<Rightarrow> (Settled entry, st1))
      | AwaitFindUnique normalizedSymbol \<Rightarrow>
          (case after_findUnique e normalizedSymbol st of
             (Inl cachedPrice, st1) \<Rightarrow> (Settled cachedPrice, st1)
           | (Inr n, st1) \<Rightarrow> (AwaitAxios n, st1))
      | AwaitAxios normalizedSymbol \<Rightarrow>
          (case after_axios e smb normalizedSymbol st of
             (Inl entry, st1) \<Rightarrow> (Settled entry, st1)
           | (Inr (stockPrice, k, p, now), st1) \<Rightarrow> (AwaitUpsert stockPrice k p now, st1))
      | AwaitUpsert stockPrice k p now \<Rightarrow>
          (case after_upsert e stockPrice k p now st of
             (entry, st1) \<Rightarrow> (Settled entry, st1))
      | Settled entry \<Rightarrow> (Settled entry, st))"

text \<open>One lookup goes on to its end, with nothing else in between.\<close>

definition finish_axios :: "env \<Rightarrow> string \<Rightarrow> string \<Rightarrow> state \<Rightarrow> StockPrice \<times> state" where
  "finish_axios e smb normalizedSymbol st =
     (case after_axios e smb normalizedSymbol st of
        (Inl entry, st1) \<Rightarrow> (entry, st1)
      | (Inr (stockPrice, k, p, now), st1) \<Rightarrow> after_upsert e stockPrice k p now st1)"

definition finish :: "env \<Rightarrow> string \<Rightarrow> lookup \<Rightarrow> state \<Rightarrow> StockPrice \<times> state" where
  "finish e smb l st =
     (case l of
        Rejected err \<Rightarrow> catch_handler e smb err st
      | AwaitFindUnique normalizedSymbol \<Rightarrow>
          (case after_findUnique e normalizedSymbol st of
             (Inl cachedPrice, st1) \<Rightarrow> (cachedPrice, st1)
           | (Inr n, st1) \<Rightarrow> finish_axios e smb n st1)
      | AwaitAxios normalizedSymbol \<Rightarrow> finish_axios e smb normalizedSymbol st
      | AwaitUpsert stockPrice k p now \<Rightarrow> after_upsert e stockPrice k p now st
      | Settled entry \<Rightarrow> (entry, st))"

text \<open>\<open>symbols.map\<close>: every call is started, in the order of the array.\<close>

fun symbols_map :: "env \<Rightarrow> bool \<Rightarrow> string list \<Rightarrow> state \<Rightarrow> lookup list \<times> state" where
  "symbols_map e useCache [] st = ([], st)"
| "symbols_map e useCache (smb # smbs) st =
     (let (l, st1) = getStockPrice_start e smb useCache st;
          (ls, st2) = symbols_map e useCache smbs st1
      in (l # ls, st2))"

text \<open>
  When \<open>symbols.map\<close> has returned, the handlers of the promises that are rejected by
  then run, in the order of the array.
\<close>

fun catch_rejected ::
  "env \<Rightarrow> string list \<Rightarrow> lookup list \<Rightarrow> state \<Rightarrow> lookup list \<times> state" where
  "catch_rejected e (smb # smbs) (l # ls) st =
     (let (l1, st1) = (case l of Rejected err \<Rightarrow> resume e smb l st | _ \<Rightarrow> (l, st));
          (ls1, st2) = catch_rejected e smbs ls st1
      in (l1 # ls1, st2))"
| "catch_rejected e smbs [] st = ([], st)"
| "catch_rejected e [] (l # ls) st = (l # ls, st)"

text \<open>
  The waits end in an order that the program does not choose: \<open>io_order e\<close> lists the
  lookups, by their index in the array, in the order in which a wait of theirs ends, and
  the lookup then goes on until its next wait. A read or a write of the database takes
  effect when its wait ends; the answer of the provider for a symbol does not depend on
  the moment of the request.
\<close>

definition resume_at ::
  "env \<Rightarrow> string list \<Rightarrow> nat \<Rightarrow> lookup list \<Rightarrow> state \<Rightarrow> lookup list \<times> state" where
  "resume_at e symbols i ls st =
     (if i < length ls \<and> i < length symbols
      then (let (l, st1) = resume e (symbols ! i) (ls ! i) st in (ls[i := l], st1))
      else (ls, st))"

fun io_loop ::
  "env \<Rightarrow> string list \<Rightarrow> nat list \<Rightarrow> lookup list \<Rightarrow> state \<Rightarrow> lookup list \<times> state" where
  "io_loop e symbols [] ls st = (ls, st)"
| "io_loop e symbols (i # order) ls st =
     (let (ls1, st1) = resume_at e symbols i ls st
      in io_loop e symbols order ls1 st1)"

text \<open>
  Every wait ends: the lookups that \<open>io_order e\<close> has left unfinished go on to their
  end, one after the other.
\<close>

fun finish_all ::
  "env \<Rightarrow> string list \<Rightarrow> lookup list \<Rightarrow> state \<Rightarrow> (Error + StockPrice) list \<times> state" where
  "finish_all e (smb # smbs) (l # ls) st =
     (let (entry, st1) = finish e smb l st;
          (entries, st2) = finish_all e smbs ls st1
      in (Inr entry # entries, st2))"
| "finish_all e smbs [] st = ([], st)"
| "finish_all e [] (l # ls) st = ([], st)"

text \<open>\<open>Promise.all\<close> rejects when one of its promises does.\<close>

fun Promise_all :: "(Error + 'a) list \<Rightarrow> Error + 'a list" where
  "Promise_all [] = Inr []"
| "Promise_all (Inl err # ps) = Inl err"
| "Promise_all (Inr v # ps) = (case Promise_all ps of Inl err \<Rightarrow> Inl err | Inr vs \<Rightarrow> Inr (v # vs))"

definition getMultipleStockPrices ::
  "env \<Rightarrow> string list \<Rightarrow> bool \<Rightarrow> state \<Rightarrow> (Error + StockPrice list) \<times> state" where
  "getMultipleStockPrices e symbols useCache st =
     (let (ls, st1) = symbols_map e useCache symbols st;
          (ls1, st2) = catch_rejected e symbols ls st1;
          (ls2, st3) = io_loop e symbols (io_order e) ls1 st2;
          (promises, st4) = finish_all e symbols ls2 st3
      in (Promise_all promises, st4))"

text \<open>
  The entries that a lookup in a given state can still settle to: the entry of the
  handler for a rejected promise, a row of the cache or what the answer of the provider
  gives for a pending lookup.
\<close>

definition may_fetch :: "env \<Rightarrow> string \<Rightarrow> string \<Rightarrow> StockPrice \<Rightarrow> bool" where
  "may_fetch e smb n sp =
     (case response_price e n of
        Inl t \<Rightarrow>
          sp = \<lparr>symbol = normalizeSymbol smb, price = 0, change = None,
                changePercent = None, timestamp = timestamp sp,
                error = Some (message (fetch_catch n t))\<rparr>
      | Inr (meta, currentPrice) \<Rightarrow>
          sp = \<lparr>symbol = n, price = currentPrice,
                change = js_minus (regularMarketPrice meta) (previousClose meta),
                changePercent = js_percent (regularMarketPrice meta) (previousClose meta),
                timestamp = timestamp sp, error = None\<rparr>)"

fun may_settle :: "env \<Rightarrow> string \<Rightarrow> lookup \<Rightarrow> StockPrice \<Rightarrow> bool" where
  "may_settle e smb (Rejected err) sp =
     (sp = \<lparr>symbol = normalizeSymbol smb, price = 0, change = None, changePercent = None,
            timestamp = timestamp sp, error = Some (message err)\<rparr>)"
| "may_settle e smb (AwaitFindUnique n) sp =
     ((symbol sp = normalizeSymbol n \<and> change sp = None \<and> changePercent sp = None
         \<and> error sp = None)
      \<or> may_fetch e smb (normalizeSymbol n) sp)"
| "may_settle e smb (AwaitAxios n) sp = may_fetch e smb n sp"
| "may_settle e smb (AwaitUpsert stockPrice k p now) sp = (sp = stockPrice)"
| "may_settle e smb (Settled entry) sp = (sp = entry)"

text \<open>The same for a whole batch: one entry for each lookup.\<close>

definition all_settle :: "env \<Rightarrow> string list \<Rightarrow> lookup list \<Rightarrow> StockPrice list \<Rightarrow> bool" where
  "all_settle e symbols ls sps =
     (length sps = length symbols
      \<and> (\<forall>j<length symbols. may_settle e (symbols ! j) (ls ! j) (sps ! j)))"

section \<open>Price routes (api/prices/route.ts)\<close>

text \<open>A JSON response: the \<open>ApiResponse\<close> body and the HTTP status.\<close>

record 'a ApiResponse =
  resp_status :: nat
  resp_success :: bool
  resp_data :: "'a option"
  resp_error :: "string option"
  resp_message :: "string option"

text \<open>
  \<open>multiplePricesSchema\<close> on the symbols:
  \<^verbatim>\<open>z.array(z.string().min(1).max(10)).min(1).max(20)\<close>.
\<close>

definition multiplePricesSchema :: "string list \<Rightarrow> bool" where
  "multiplePricesSchema symbols =
     (list_all (\<lambda>s. 1 \<le> length s \<and> length s \<le> 10) symbols
      \<and> 1 \<le> length symbols \<and> length symbols \<le> 20)"

text \<open>\<^verbatim>\<open>symbols.split(',').map(s => s.trim()).filter(Boolean)\<close>\<close>

definition splitSymbols :: "string \<Rightarrow> string list" where
  "splitSymbols symbols = filter (\<lambda>s. s \<noteq> []) (map trim (split_on (CHR '','') symbols))"

text \<open>The status that the \<open>catch\<close> block of the price routes picks from the message.\<close>

definition statusOfMessage :: "string \<Rightarrow> nat" where
  "statusOfMessage m =
     (if str_includes m ''Rate limit exceeded'' then 429
      else if str_includes m ''not found'' then 404
      else if str_includes m ''Invalid'' then 400
      else 500)"

text \<open>
  \<open>GET /api/prices\<close> for a request without the parameters \<open>search\<close> and \<open>symbol\<close>:
  the branch for several symbols, and the final answer when \<open>symbols\<close> is missing too.
\<close>

definition GET_prices_symbols ::
  "env \<Rightarrow> string option \<Rightarrow> bool \<Rightarrow> state \<Rightarrow> StockPrice list ApiResponse \<times> state" where
  "GET_prices_symbols e symbols useCache st =
     (case symbols of
        None \<Rightarrow>
          (\<lparr>resp_status = 400, resp_success = False, resp_data = None,
            resp_error = Some ''Missing required parameters'',
            resp_message = Some ''Provide either symbol, symbols, or search parameter''\<rparr>, st)
      | Some str \<Rightarrow>
          if str = []
          then (\<lparr>resp_status = 400, resp_success = False, resp_data = None,
                 resp_error = Some ''Missing required parameters'',
                 resp_message = Some ''Provide either symbol, symbols, or search parameter''\<rparr>,
                st)
          else
            (let symbolArray = splitSymbols str
             in if \<not> multiplePricesSchema symbolArray
                then (\<lparr>resp_status = 400, resp_success = False, resp_data = None,
                       resp_error = Some ''Invalid symbols parameter'',
                       resp_message = Some ''Provide 1-20 valid symbols separated by commas''\<rparr>,
                      st)
                else
                  (let invalidSymbols =
                         filter (\<lambda>s. \<not> isValidStockSymbol (normalizeSymbol s)) symbolArray
                   in if length invalidSymbols > 0
                      then (\<lparr>resp_status = 400, resp_success = False, resp_data = None,
                             resp_error = Some (''Invalid stock symbol format: ''
                               @ join '', '' invalidSymbols),
                             resp_message = None\<rparr>, st)
                      else
                        (case getMultipleStockPrices e symbolArray useCache st of
                           (Inr stockPrices, st1) \<Rightarrow>
                             (\<lparr>resp_status = 200, resp_success = True,
                               resp_data = Some stockPrices, resp_error = None,
                               resp_message = None\<rparr>, st1)
                         | (Inl err, st1) \<Rightarrow>
                             (\<lparr>resp_status = statusOfMessage (message err),
                               resp_success = False, resp_data = None,
                               resp_error = Some (message err), resp_message = None\<rparr>,
                              st1)))))"

text \<open>
  \<open>POST /api/prices\<close> for a body without \<open>symbol\<close> and with an array of strings as
  \<open>symbols\<close>: the refresh of several symbols.
\<close>

definition POST_prices_symbols ::
  "env \<Rightarrow> string list \<Rightarrow> state \<Rightarrow> StockPrice list ApiResponse \<times> state" where
  "POST_prices_symbols e symbols st =
     (if \<not> multiplePricesSchema symbols
      then (\<lparr>resp_status = 400, resp_success = False, resp_data = None,
             resp_error = Some ''Invalid symbols parameter'',
             resp_message = Some ''Provide 1-20 valid symbols in an array''\<rparr>, st)
      else
        (let invalidSymbols = filter (\<lambda>s. \<not> isValidStockSymbol (normalizeSymbol s)) symbols
         in if length invalidSymbols > 0
            then (\<lparr>resp_status = 400, resp_success = False, resp_data = None,
                   resp_error = Some (''Invalid stock symbol format: ''
                     @ join '', '' invalidSymbols),
                   resp_message = None\<rparr>, st)
            else
              (case getMultipleStockPrices e symbols False st of
                 (Inr stockPrices, st1) \<Rightarrow>
                   (\<lparr>resp_status = 200, resp_success = True, resp_data = Some stockPrices,
                     resp_error = None,
                     resp_message = Some ''Prices refreshed successfully''\<rparr>, st1)
               | (Inl err, st1) \<Rightarrow>
                   (\<lparr>resp_status = statusOfMessage (message err), resp_success = False,
                     resp_data = None, resp_error = Some (message err),
                     resp_message = None\<rparr>, st1))))"

section \<open>Push notifications (firebase.ts)\<close>

definition getFirebaseAdmin :: "env \<Rightarrow> state \<Rightarrow> (Error + unit) \<times> state" where
  "getFirebaseAdmin e st =
     (if window_defined e
      then (Inl (Error ''Firebase Admin SDK should only be used on the server side''), st)
      else if adminApp st then (Inr (), st)
      else (case firebase_admin_throws e of
              Some m \<Rightarrow> (Inl (Error m), st)
            | None \<Rightarrow> (Inr (), st\<lparr>adminApp := True\<rparr>)))"

text \<open>The \<open>forEach\<close> over \<open>response.results\<close>, with \<open>successCount\<close> as accumulator.\<close>

fun results_forEach :: "string option list \<Rightarrow> nat \<Rightarrow> nat" where
  "results_forEach [] successCount = successCount"
| "results_forEach (result # results) successCount =
     (case result of
        Some err \<Rightarrow> results_forEach results successCount
      | None \<Rightarrow> results_forEach results (successCount + 1))"

definition sendBulkPushNotifications ::
  "env \<Rightarrow> string list \<Rightarrow> NotificationPayload \<Rightarrow> state \<Rightarrow> (Error + nat) \<times> state" where
  "sendBulkPushNotifications e tokens payload st =
     (if window_defined e
      then (Inl (Error
              ''sendBulkPushNotifications should only be called on the server side''), st)
      else if length tokens = 0 then (Inr 0, st)
      else
        (case getFirebaseAdmin e st of
           (Inl err, st1) \<Rightarrow> (Inr 0, st1)
         | (Inr admin, st1) \<Rightarrow>
             (let st2 = emit (SentToDevice tokens) st1
              in case sendToDevice e tokens payload of
                   GatewayRejects m \<Rightarrow> (Inr 0, st2)
                 | DevicesResponse results \<Rightarrow> (Inr (results_forEach results 0), st2))))"

section \<open>Alert routes (api/alerts/route.ts)\<close>

text \<open>
  \<open>prisma.alert.deleteMany\<close> with \<open>where: { id: { in: alertIds } }\<close>. The relation of
  \<open>TriggeredAlert\<close> to \<open>Alert\<close> is declared \<open>onDelete: Cascade\<close> in the schema, so the
  database deletes with each alert the triggered alerts that refer to it. The result is
  the number of alerts deleted.
\<close>

definition alert_deleteMany :: "string list \<Rightarrow> state \<Rightarrow> nat \<times> state" where
  "alert_deleteMany alertIds st =
     (let deleted = filter (\<lambda>a. a_id a \<in> set alertIds) (db_alert st)
      in (length deleted,
          st\<lparr>db_alert := filter (\<lambda>a. a_id a \<notin> set alertIds) (db_alert st),
             db_triggeredAlert :=
               filter (\<lambda>t. t_alertId t \<notin> set (map a_id deleted)) (db_triggeredAlert st)\<rparr>))"

text \<open>The message of the error that \<open>withDbErrorHandling\<close> throws for a failed operation.\<close>

definition withDbErrorHandling_message :: "string \<Rightarrow> string" where
  "withDbErrorHandling_message m =
     (if str_includes m ''P2002'' then ''A record with this data already exists''
      else if str_includes m ''P2025'' then ''Record not found''
      else if str_includes m ''P2003'' then ''Foreign key constraint failed''
      else ''Database operation failed'')"

text \<open>A number in a template string.\<close>

fun decimal :: "nat \<Rightarrow> string" where
  "decimal n =
     (if n < 10 then [char_of (48 + n)] else decimal (n div 10) @ [char_of (48 + n mod 10)])"

text \<open>
  \<open>DELETE /api/alerts\<close> with the query parameters \<open>id\<close> and \<open>ids\<close> (\<open>None\<close> when the
  parameter is absent). The data of the answer is \<open>deletedCount\<close>.
\<close>

definition DELETE_alerts ::
  "env \<Rightarrow> string option \<Rightarrow> string option \<Rightarrow> state \<Rightarrow> nat ApiResponse \<times> state" where
  "DELETE_alerts e singleId bulkIds st =
     (let idGiven = (case singleId of None \<Rightarrow> False | Some i \<Rightarrow> i \<noteq> []);
          idsGiven = (case bulkIds of None \<Rightarrow> False | Some b \<Rightarrow> b \<noteq> [])
      in if \<not> idGiven \<and> \<not> idsGiven
         then (\<lparr>resp_status = 400, resp_success = False, resp_data = None,
                resp_error = Some ''Either id or ids parameter is required'',
                resp_message = None\<rparr>, st)
         else
           (let alertIds =
                  (if idGiven then (case singleId of None \<Rightarrow> [] | Some i \<Rightarrow> [i])
                   else (case bulkIds of
                           None \<Rightarrow> []
                         | Some b \<Rightarrow>
                             filter (\<lambda>i. i \<noteq> []) (map trim (split_on (CHR '','') b))))
            in if length alertIds = 0
               then (\<lparr>resp_status = 400, resp_success = False, resp_data = None,
                      resp_error = Some ''No valid alert IDs provided'',
                      resp_message = None\<rparr>, st)
               else
                 (let st1 = emit (AlertsDeleteMany alertIds) st
                  in case deleteMany_throws e of
                       Some m \<Rightarrow>
                         (\<lparr>resp_status = 500, resp_success = False, resp_data = None,
                           resp_error = Some (withDbErrorHandling_message m),
                           resp_message = None\<rparr>, st1)
                     | None \<Rightarrow>
                         (let (deletedCount, st2) = alert_deleteMany alertIds st1
                          in (\<lparr>resp_status = 200, resp_success = True,
                               resp_data = Some deletedCount, resp_error = None,
                               resp_message =
                                 Some (decimal deletedCount @ '' alert(s) deleted successfully'')\<rparr>,
                              st2)))))"

section \<open>Alert card (AlertCard.tsx)\<close>

text \<open>
  \<open>currentPrice\<close> is an optional number; \<open>!currentPrice\<close> holds when it is missing and
  when it is zero.
\<close>

definition getStatusColor :: "Alert \<Rightarrow> real option \<Rightarrow> string" where
  "getStatusColor alert currentPrice =
     (if \<not> a_isActive alert then ''bg-gray-100 border-gray-300''
      else (case currentPrice of
              None \<Rightarrow> ''bg-yellow-50 border-yellow-200''
            | Some p \<Rightarrow>
                if p = 0 then ''bg-yellow-50 border-yellow-200''
                else if a_condition alert = ABOVE
                then (if p \<ge> a_targetPrice alert then ''bg-green-50 border-green-200''
                      else ''bg-blue-50 border-blue-200'')
                else (if p \<le> a_targetPrice alert then ''bg-red-50 border-red-200''
                      else ''bg-blue-50 border-blue-200'')))"

definition getStatusText :: "Alert \<Rightarrow> real option \<Rightarrow> string" where
  "getStatusText alert currentPrice =
     (if \<not> a_isActive alert then ''Inactive''
      else (case currentPrice of
              None \<Rightarrow> ''Loading price...''
            | Some p \<Rightarrow>
                if p = 0 then ''Loading price...''
                else if a_condition alert = ABOVE
                then (if p \<ge> a_targetPrice alert then ''Target Reached!''
                      else ''Monitoring...'')
                else (if p \<le> a_targetPrice alert then ''Target Reached!''
                      else ''Monitoring...'')))"

section \<open>A concrete world\<close>

text \<open>
  A world and some states on which the functions are run: the provider quotes AAPL and
  MSFT and answers 404 for anything else, the gateway reports \<open>token-2\<close> as not
  registered, and the cache holds a price of AAPL written 100 seconds before the first
  clock reading.
\<close>

definition example_env :: env where
  "example_env =
     \<lparr>clock = (\<lambda>n. 1000000 + int n),
      axios_get_chart = (\<lambda>s.
        if s = ''AAPL''
        then Response (Result \<lparr>regularMarketPrice = Number 150, previousClose = Number 148\<rparr>)
        else if s = ''MSFT''
        then Response (Result \<lparr>regularMarketPrice = Number 300, previousClose = Number 303\<rparr>)
        else AxiosError (Some 404) None),
      findUnique_throws = (\<lambda>s. None),
      upsert_throws = (\<lambda>s. None),
      window_defined = False,
      firebase_admin_throws = None,
      sendToDevice = (\<lambda>tokens payload. DevicesResponse (map (\<lambda>t.
        if t = ''token-2'' then Some ''messaging/registration-token-not-registered''
        else None) tokens)),
      deleteMany_throws = None,
      io_order = [2, 0, 2, 1, 2]\<rparr>"

definition example_state :: state where
  "example_state =
     \<lparr>rateLimitStore = Map.empty,
      adminApp = False,
      db_stockPrice = [\<lparr>r_symbol = ''AAPL'', r_price = 149, r_updatedAt = 900000\<rparr>],
      db_alert =
        [\<lparr>a_id = ''a1'', a_symbol = ''AAPL'', a_targetPrice = 150, a_condition = ABOVE,
          a_isActive = True, a_createdAt = 0, a_updatedAt = 0\<rparr>,
         \<lparr>a_id = ''a2'', a_symbol = ''MSFT'', a_targetPrice = 250, a_condition = BELOW,
          a_isActive = True, a_createdAt = 0, a_updatedAt = 0\<rparr>],
      db_triggeredAlert =
        [\<lparr>t_id = ''t1'', t_alertId = ''a1'', t_symbol = ''AAPL'', t_targetPrice = 150,
          t_actualPrice = 151, t_condition = ABOVE, t_triggeredAt = 10, t_isRead = False\<rparr>,
         \<lparr>t_id = ''t2'', t_alertId = ''a2'', t_symbol = ''MSFT'', t_targetPrice = 250,
          t_actualPrice = 249, t_condition = BELOW, t_triggeredAt = 20, t_isRead = True\<rparr>,
         \<lparr>t_id = ''t3'', t_alertId = ''a1'', t_symbol = ''AAPL'', t_targetPrice = 150,
          t_actualPrice = 155, t_condition = ABOVE, t_triggeredAt = 30, t_isRead = True\<rparr>],
      db_deviceToken =
        [\<lparr>d_id = ''d1'', d_token = ''token-1'', d_userId = None, d_createdAt = 0,
          d_updatedAt = 0, d_isActive = True\<rparr>,
         \<lparr>d_id = ''d2'', d_token = ''token-2'', d_userId = None, d_createdAt = 0,
          d_updatedAt = 0, d_isActive = True\<rparr>,
         \<lparr>d_id = ''d3'', d_token = ''token-3'', d_userId = None, d_createdAt = 0,
          d_updatedAt = 0, d_isActive = True\<rparr>],
      ticks = 0,
      trace = []\<rparr>"

text \<open>The same state with the budget of the key \<open>default\<close> used up in the running window.\<close>

definition exhausted_state :: state where
  "exhausted_state =
     example_state\<lparr>rateLimitStore := Map.empty(''default'' \<mapsto> \<lparr>count = 100, resetTime = 1050000\<rparr>)\<rparr>"

text \<open>The same world with a database that fails on every read and write of the cache.\<close>

definition failing_db_env :: env where
  "failing_db_env =
     example_env\<lparr>findUnique_throws := (\<lambda>s. Some ''P1001: cannot reach database server''),
                 upsert_throws := (\<lambda>s. Some ''P1001: cannot reach database server'')\<rparr>"

text \<open>Twenty-one symbols, one more than the price routes accept.\<close>

definition oversized_batch :: "string list" where
  "oversized_batch =
     [''GOOG'', ''AMZN'', ''META'', ''TSLA'', ''NVDA'', ''NFLX'', ''INTC'', ''AMD'',
      ''IBM'', ''ORCL'', ''CSCO'', ''ADBE'', ''CRM'', ''PYPL'', ''UBER'', ''LYFT'',
      ''SHOP'', ''SPOT'', ''ZM'', ''SNAP'', ''PINS'']"

definition example_payload :: NotificationPayload where
  "example_payload = \<lparr>title = ''AAPL alert'', body = ''AAPL is above 150''\<rparr>"

text \<open>
  The same world with a server whose Firebase credentials are rejected, and the same
  world with the code running in a browser.
\<close>

definition misconfigured_env :: env where
  "misconfigured_env =
     example_env\<lparr>firebase_admin_throws := Some ''Failed to parse private key''\<rparr>"

definition browser_env :: env where
  "browser_env = example_env\<lparr>window_defined := True\<rparr>"

text \<open>An alert that has been switched off, and an active alert on a falling price.\<close>

definition inactive_alert :: Alert where
  "inactive_alert =
     \<lparr>a_id = ''a3'', a_symbol = ''AAPL'', a_targetPrice = 100, a_condition = ABOVE,
      a_isActive = False, a_createdAt = 0, a_updatedAt = 0\<rparr>"

definition below_alert :: Alert where
  "below_alert =
     \<lparr>a_id = ''a4'', a_symbol = ''MSFT'', a_targetPrice = 5, a_condition = BELOW,
      a_isActive = True, a_createdAt = 0, a_updatedAt = 0\<rparr>"

text \<open>The same symbols as the \<open>symbols\<close> parameter of a \<open>GET\<close> request.\<close>

definition example_query :: string where
  "example_query =
     ''GOOG,AMZN,META,TSLA,NVDA,NFLX,INTC,AMD,IBM,ORCL,CSCO,''
     @ ''ADBE,CRM,PYPL,UBER,LYFT,SHOP,SPOT,ZM,SNAP,PINS''"

section \<open>Facts about symbols\<close>

lemma toUpperChars_whiteSpace: "isWhiteSpace c \<Longrightarrow> toUpperChars c = [c]"
  by (auto simp: toUpperChars_def isWhiteSpace_def Let_def)

lemma toUpperChars_not_Nil: "toUpperChars c \<noteq> []"
  by (simp add: toUpperChars_def Let_def)

lemma toUpperChars_no_whiteSpace:
  "\<not> isWhiteSpace c \<Longrightarrow> d \<in> set (toUpperChars c) \<Longrightarrow> \<not> isWhiteSpace d"
  by (auto simp: toUpperChars_def isWhiteSpace_def Let_def split: if_splits)

lemma toUpperChars_fixed: "d \<in> set (toUpperChars c) \<Longrightarrow> toUpperChars d = [d]"
  by (auto simp: toUpperChars_def Let_def split: if_splits)

lemma rev_toUpperChars: "rev (toUpperChars c) = toUpperChars c"
  by (simp add: toUpperChars_def Let_def)

lemma toUpperCase_fixed: "\<forall>d\<in>set s. toUpperChars d = [d] \<Longrightarrow> toUpperCase s = s"
  by (induction s) (simp_all add: toUpperCase_def)

lemma toUpperCase_idem: "toUpperCase (toUpperCase s) = toUpperCase s"
  by (rule toUpperCase_fixed) (auto simp: toUpperCase_def dest: toUpperChars_fixed)

lemma dropWhile_toUpperCase:
  "dropWhile isWhiteSpace (toUpperCase s) = toUpperCase (dropWhile isWhiteSpace s)"
proof (induction s)
  case Nil
  then show ?case by (simp add: toUpperCase_def)
next
  case (Cons c s)
  show ?case
  proof (cases "isWhiteSpace c")
    case True
    then show ?thesis
      using Cons by (simp add: toUpperCase_def toUpperChars_whiteSpace)
  next
    case False
    obtain d ds where u: "toUpperChars c = d # ds"
      using toUpperChars_not_Nil [of c] by (cases "toUpperChars c") auto
    then have "\<not> isWhiteSpace d"
      using toUpperChars_no_whiteSpace [OF False, of d] by simp
    then show ?thesis
      using False u by (simp add: toUpperCase_def)
  qed
qed

lemma rev_toUpperCase: "rev (toUpperCase s) = toUpperCase (rev s)"
  by (induction s) (simp_all add: toUpperCase_def rev_toUpperChars)

lemma trim_toUpperCase: "trim (toUpperCase s) = toUpperCase (trim s)"
  by (simp add: trim_def dropWhile_toUpperCase rev_toUpperCase)

lemma dropWhile_trimmed:
  "dropWhile P (rev (dropWhile P (rev (dropWhile P s)))) = rev (dropWhile P (rev (dropWhile P s)))"
proof -
  define t where "t = dropWhile P s"
  define u where "u = rev (dropWhile P (rev t))"
  have t_eq: "t = u @ rev (takeWhile P (rev t))"
    unfolding u_def by (metis rev_append rev_rev_ident takeWhile_dropWhile_id)
  have "dropWhile P u = u"
  proof (cases u)
    case Nil
    then show ?thesis by simp
  next
    case (Cons a as)
    with t_eq have "t = a # (as @ rev (takeWhile P (rev t)))" by simp
    then have "t \<noteq> []" and "hd t = a"
      by (metis list.distinct(1), metis list.sel(1))
    then have "\<not> P a"
      unfolding t_def using hd_dropWhile by metis
    with Cons show ?thesis by simp
  qed
  then show ?thesis by (simp add: u_def t_def)
qed

lemma trim_idem: "trim (trim s) = trim s"
  by (simp add: trim_def dropWhile_trimmed)

lemma normalizeSymbol_idem: "normalizeSymbol (normalizeSymbol s) = normalizeSymbol s"
  by (simp add: normalizeSymbol_def trim_toUpperCase trim_idem toUpperCase_idem)

lemma valid_normalized:
  "isValidStockSymbol (normalizeSymbol s) = symbolRegex_test (normalizeSymbol s)"
  by (simp add: isValidStockSymbol_def normalizeSymbol_def toUpperCase_idem)

lemma isWhiteSpace_codes:
  "isWhiteSpace c \<longleftrightarrow> (of_char c :: nat) \<in> {9, 10, 11, 12, 13, 32, 160}"
  unfolding isWhiteSpace_def Let_def by auto

lemma trim_parts:
  "\<exists>pre suf. s = pre @ trim s @ suf
     \<and> list_all isWhiteSpace pre \<and> list_all isWhiteSpace suf
     \<and> (trim s = [] \<or> (\<not> isWhiteSpace (hd (trim s)) \<and> \<not> isWhiteSpace (last (trim s))))"
proof -
  define pre where "pre = takeWhile isWhiteSpace s"
  define rest where "rest = dropWhile isWhiteSpace s"
  define suf where "suf = rev (takeWhile isWhiteSpace (rev rest))"
  have t: "trim s = rev (dropWhile isWhiteSpace (rev rest))"
    by (simp add: trim_def rest_def)
  have "rev (rev rest) =
      rev (takeWhile isWhiteSpace (rev rest) @ dropWhile isWhiteSpace (rev rest))"
    by (simp only: takeWhile_dropWhile_id)
  then have r: "rest = trim s @ suf"
    unfolding t suf_def by (simp only: rev_rev_ident rev_append)
  have s: "s = pre @ trim s @ suf"
    using r takeWhile_dropWhile_id [of isWhiteSpace s] by (simp add: pre_def rest_def)
  have p1: "list_all isWhiteSpace pre"
    by (simp add: pre_def list_all_iff) (meson set_takeWhileD)
  have p2: "list_all isWhiteSpace suf"
    by (simp add: suf_def list_all_iff) (meson set_takeWhileD)
  have ends: "\<not> isWhiteSpace (hd (trim s)) \<and> \<not> isWhiteSpace (last (trim s))" if ne: "trim s \<noteq> []"
  proof -
    have "rest \<noteq> []" using r ne by auto
    then have "\<not> isWhiteSpace (hd rest)"
      unfolding rest_def by (rule hd_dropWhile)
    moreover have "hd rest = hd (trim s)"
      using r ne by (metis hd_append2)
    moreover have "dropWhile isWhiteSpace (rev rest) \<noteq> []"
      using t ne by auto
    then have "\<not> isWhiteSpace (hd (dropWhile isWhiteSpace (rev rest)))"
      by (rule hd_dropWhile)
    then have "\<not> isWhiteSpace (last (trim s))"
      using t by (simp add: last_rev)
    ultimately show ?thesis by simp
  qed
  show ?thesis
    using s p1 p2 ends by blast
qed

lemma toUpperChars_codes:
  "toUpperChars c =
     (if (of_char c :: nat) = 223 then ''SS''
      else if (of_char c :: nat) \<in> {97..122} \<union> {224..246} \<union> {248..254}
      then [char_of ((of_char c :: nat) - 32)]
      else [c])"
  by (simp add: toUpperChars_def Let_def)

section \<open>Facts about the price cache\<close>

lemma ev_norm_AAPL: "normalizeSymbol ''AAPL'' = ''AAPL''" by code_simp
lemma ev_valid_AAPL: "isValidStockSymbol ''AAPL''" by code_simp

lemma checkRateLimit_eq:
  "checkRateLimit e key st =
     (fst (checkRateLimit_at 100 60000 (clock e (ticks st)) key (rateLimitStore st)),
      st\<lparr>rateLimitStore := snd (checkRateLimit_at 100 60000 (clock e (ticks st)) key (rateLimitStore st)),
         ticks := Suc (ticks st),
         trace := trace st @ [RateLimitChecked key]\<rparr>)"
  by (simp add: checkRateLimit_def Date_now_def emit_def RATE_LIMIT_REQUESTS_def
      RATE_LIMIT_WINDOW_def split: prod.splits)

lemma example_env_simps:
  "clock example_env n = 1000000 + int n"
  "axios_get_chart example_env ''AAPL'' =
     Response (Result \<lparr>regularMarketPrice = Number 150, previousClose = Number 148\<rparr>)"
  "axios_get_chart example_env ''MSFT'' =
     Response (Result \<lparr>regularMarketPrice = Number 300, previousClose = Number 303\<rparr>)"
  "findUnique_throws example_env s = None"
  "upsert_throws example_env s = None"
  "window_defined example_env = False"
  "firebase_admin_throws example_env = None"
  "deleteMany_throws example_env = None"
  by (simp_all add: example_env_def)

lemma example_state_simps:
  "rateLimitStore example_state = Map.empty"
  "adminApp example_state = False"
  "db_stockPrice example_state = [\<lparr>r_symbol = ''AAPL'', r_price = 149, r_updatedAt = 900000\<rparr>]"
  "ticks example_state = 0"
  "trace example_state = []"
  by (simp_all add: example_state_def)

lemma exhausted_state_simps:
  "rateLimitStore exhausted_state = Map.empty(''default'' \<mapsto> \<lparr>count = 100, resetTime = 1050000\<rparr>)"
  "db_stockPrice exhausted_state = db_stockPrice example_state"
  "ticks exhausted_state = 0"
  "trace exhausted_state = []"
  by (simp_all add: exhausted_state_def example_state_def)

lemma find_key: "find (\<lambda>r. f r = k) xs = Some x \<Longrightarrow> f x = k"
  by (induction xs) (auto split: if_splits)

lemma fetch_try_symbol:
  "fst (fetch_try e n st) = Inr p \<Longrightarrow> symbol p = n"
  by (auto simp: fetch_try_def Let_def Date_now_def
      split: AxiosOutcome.splits Chart.splits JsonNumber.splits option.splits if_splits prod.splits)

lemma fetchPriceFromAPI_symbol:
  "fst (fetchPriceFromAPI e s st) = Inr p \<Longrightarrow> symbol p = normalizeSymbol s"
  using fetch_try_symbol [of e "normalizeSymbol s" st p]
  by (auto simp: fetchPriceFromAPI_def Let_def split: prod.splits sum.splits)

lemma getCachedPrice_symbol:
  "fst (getCachedPrice e s st) = Some p \<Longrightarrow> symbol p = normalizeSymbol s"
  by (auto simp: getCachedPrice_def stockPrice_findUnique_def Let_def isCacheValid_def Date_now_def
      dest: find_key split: prod.splits sum.splits option.splits if_splits)

lemma ev_norm_padded: "normalizeSymbol ''  msft '' = ''MSFT''" by code_simp
lemma ev_valid_MSFT: "isValidStockSymbol ''MSFT''" by code_simp
lemma ev_regex_MSFT: "symbolRegex_test ''MSFT''" by code_simp
lemma ev_norm_MSFT: "normalizeSymbol ''MSFT'' = ''MSFT''" by code_simp

lemma example_fetch_MSFT:
  "fst (getStockPrice example_env ''  msft '' False example_state) =
      Inr \<lparr>symbol = ''MSFT'', price = 300, change = Some (- 3),
           changePercent = Some (- (100 / 101)), timestamp = 1000001, error = None\<rparr>"
  by (simp add: getStockPrice_def checkRateLimit_eq fetchPriceFromAPI_def fetch_try_def
      updatePriceCache_def stockPrice_upsert_def js_or_def js_minus_def js_percent_def json_truthy_def ToNumber_def
      ev_norm_padded ev_valid_MSFT ev_norm_MSFT emit_def Date_now_def Let_def
      checkRateLimit_at_def example_env_simps example_state_simps)

lemma fetch_try_ticks:
  "ticks st = ticks st' \<Longrightarrow> fst (fetch_try e n st) = fst (fetch_try e n st')"
  by (auto simp: fetch_try_def Let_def Date_now_def emit_def
      split: AxiosOutcome.splits Chart.splits JsonNumber.splits option.splits if_splits prod.splits)

lemma fetchPriceFromAPI_ticks:
  "ticks st = ticks st' \<Longrightarrow> fst (fetchPriceFromAPI e s st) = fst (fetchPriceFromAPI e s st')"
  using fetch_try_ticks [where st = st and st' = st' and e = e and n = "normalizeSymbol s"]
  by (auto simp: fetchPriceFromAPI_def Let_def split: prod.splits sum.splits)

lemma fetch_try_upsert:
  "fst (fetch_try (e\<lparr>upsert_throws := u\<rparr>) n st) = fst (fetch_try e n st)"
  by (auto simp: fetch_try_def Let_def Date_now_def emit_def
      split: AxiosOutcome.splits Chart.splits JsonNumber.splits option.splits if_splits prod.splits)

lemma fetchPriceFromAPI_upsert:
  "fst (fetchPriceFromAPI (e\<lparr>upsert_throws := u\<rparr>) s st) = fst (fetchPriceFromAPI e s st)"
  using fetch_try_upsert [where e = e and u = u and n = "normalizeSymbol s" and st = st]
  by (auto simp: fetchPriceFromAPI_def Let_def split: prod.splits sum.splits)

lemma getCachedPrice_upsert:
  "getCachedPrice (e\<lparr>upsert_throws := u\<rparr>) s st = getCachedPrice e s st"
  by (simp add: getCachedPrice_def stockPrice_findUnique_def isCacheValid_def Date_now_def Let_def
      split: option.splits)

lemma checkRateLimit_upsert:
  "checkRateLimit (e\<lparr>upsert_throws := u\<rparr>) k st = checkRateLimit e k st"
  by (simp add: checkRateLimit_eq)

lemma getCachedPrice_throws:
  "findUnique_throws e (normalizeSymbol s) = Some m \<Longrightarrow>
   getCachedPrice e s st = (None, emit (CacheRead (normalizeSymbol s)) st)"
  by (simp add: getCachedPrice_def stockPrice_findUnique_def Let_def)

lemma fetch_trace:
  "QuoteRequested (normalizeSymbol s) \<in> set (trace (snd (fetchPriceFromAPI e s st)))"
  by (auto simp: fetchPriceFromAPI_def fetch_try_def Let_def Date_now_def emit_def
      updatePriceCache_def stockPrice_upsert_def
      split: AxiosOutcome.splits Chart.splits JsonNumber.splits option.splits if_splits prod.splits sum.splits)


lemma fetch_try_price:
  "axios_get_chart e n = Response (Result meta) \<Longrightarrow>
   js_or (regularMarketPrice meta) (previousClose meta) = Number p \<Longrightarrow> p \<noteq> 0 \<Longrightarrow>
   \<exists>sp. fst (fetch_try e n st) = Inr sp \<and> price sp = p \<and> symbol sp = n"
  by (simp add: fetch_try_def Let_def Date_now_def split: prod.splits)

lemma fetchPriceFromAPI_price:
  "axios_get_chart e (normalizeSymbol s) = Response (Result meta) \<Longrightarrow>
   js_or (regularMarketPrice meta) (previousClose meta) = Number p \<Longrightarrow> p \<noteq> 0 \<Longrightarrow>
   \<exists>sp. fst (fetchPriceFromAPI e s st) = Inr sp \<and> price sp = p"
  using fetch_try_price [where e = e and n = "normalizeSymbol s" and st = st and meta = meta and p = p]
  by (auto simp: fetchPriceFromAPI_def Let_def split: prod.splits sum.splits)

lemma failing_db_env_simps:
  "clock failing_db_env n = 1000000 + int n"
  "axios_get_chart failing_db_env ''AAPL'' =
     Response (Result \<lparr>regularMarketPrice = Number 150, previousClose = Number 148\<rparr>)"
  "findUnique_throws failing_db_env s = Some ''P1001: cannot reach database server''"
  "upsert_throws failing_db_env s = Some ''P1001: cannot reach database server''"
  by (simp_all add: failing_db_env_def example_env_def)

section \<open>Facts about the batch lookup\<close>


lemma Promise_all_Inr: "Promise_all (map Inr vs) = Inr vs"
  by (induction vs) simp_all


lemma symbols_map_length: "length (fst (symbols_map e useCache symbols st)) = length symbols"
  by (induction symbols arbitrary: st) (simp_all add: case_prod_unfold Let_def)


lemma getCachedPrice_hit:
  "getCachedPrice e s st = (Some p, st') \<Longrightarrow>
   symbol p = normalizeSymbol s \<and> change p = None \<and> changePercent p = None \<and> error p = None"
  by (auto simp: getCachedPrice_def stockPrice_findUnique_def Let_def isCacheValid_def Date_now_def
      dest: find_key split: prod.splits sum.splits option.splits if_splits)

lemma may_settle_resume:
  "may_settle e smb (fst (resume e smb l st)) sp \<Longrightarrow> may_settle e smb l sp"
proof (cases l)
  case (Rejected err)
  assume "may_settle e smb (fst (resume e smb l st)) sp"
  then show ?thesis
    using Rejected by (auto simp: resume_def catch_handler_def Date_now_def)
next
  case (AwaitFindUnique n)
  assume a: "may_settle e smb (fst (resume e smb l st)) sp"
  obtain r st1 where r: "getCachedPrice e n st = (r, st1)"
    by (cases "getCachedPrice e n st")
  show ?thesis
  proof (cases r)
    case None
    then show ?thesis
      using a r AwaitFindUnique by (simp add: resume_def after_findUnique_def)
  next
    case (Some p)
    then have "sp = p"
      using a r AwaitFindUnique by (simp add: resume_def after_findUnique_def)
    then show ?thesis
      using getCachedPrice_hit [of e n st p st1] r Some AwaitFindUnique by simp
  qed
next
  case (AwaitAxios n)
  assume "may_settle e smb (fst (resume e smb l st)) sp"
  then show ?thesis
    using AwaitAxios
    by (auto simp: resume_def after_axios_def catch_handler_def may_fetch_def Date_now_def
        split: sum.splits prod.splits)
next
  case (AwaitUpsert stockPrice k p now)
  assume "may_settle e smb (fst (resume e smb l st)) sp"
  then show ?thesis
    using AwaitUpsert by (auto simp: resume_def after_upsert_def split: sum.splits prod.splits)
next
  case (Settled entry)
  assume "may_settle e smb (fst (resume e smb l st)) sp"
  then show ?thesis
    using Settled by (simp add: resume_def)
qed

lemma finish_resume:
  "finish e smb (fst (resume e smb l st)) (snd (resume e smb l st)) = finish e smb l st"
  by (cases l)
     (auto simp: finish_def resume_def finish_axios_def split: sum.splits prod.splits)

lemma may_settle_finish: "may_settle e smb l (fst (finish e smb l st))"
proof -
  have s: "may_settle e smb (Settled (fst (finish e smb l st))) (fst (finish e smb l st))"
    by simp
  define l1 where "l1 = fst (resume e smb l st)"
  define st1 where "st1 = snd (resume e smb l st)"
  define l2 where "l2 = fst (resume e smb l1 st1)"
  define st2 where "st2 = snd (resume e smb l1 st1)"
  define l3 where "l3 = fst (resume e smb l2 st2)"
  define st3 where "st3 = snd (resume e smb l2 st2)"
  have f: "finish e smb l3 st3 = finish e smb l st"
    unfolding l3_def st3_def l2_def st2_def l1_def st1_def by (simp add: finish_resume)
  have "\<exists>entry. l3 = Settled entry"
    unfolding l3_def st3_def l2_def st2_def l1_def st1_def
    by (cases l) (auto simp: resume_def split: sum.splits prod.splits)
  then obtain entry where e3: "l3 = Settled entry" by blast
  then have "finish e smb l3 st3 = (entry, st3)"
    by (simp add: finish_def)
  then have "fst (finish e smb l st) = entry"
    using f by simp
  then have "may_settle e smb l3 (fst (finish e smb l st))"
    using e3 by simp
  then have "may_settle e smb l2 (fst (finish e smb l st))"
    unfolding l3_def by (rule may_settle_resume)
  then have "may_settle e smb l1 (fst (finish e smb l st))"
    unfolding l2_def by (rule may_settle_resume)
  then show ?thesis
    unfolding l1_def by (rule may_settle_resume)
qed

lemma finish_all_settle:
  "length ls = length symbols \<Longrightarrow>
   \<exists>sps. fst (finish_all e symbols ls st) = map Inr sps \<and> all_settle e symbols ls sps"
proof (induction symbols arbitrary: ls st)
  case Nil
  then show ?case by (simp add: all_settle_def)
next
  case (Cons s symbols)
  then obtain l ls' where ls: "ls = l # ls'" "length ls' = length symbols"
    by (cases ls) auto
  obtain sps where sps: "fst (finish_all e symbols ls' (snd (finish e s l st))) = map Inr sps"
      "all_settle e symbols ls' sps"
    using Cons.IH [OF ls(2)] by blast
  have 1: "fst (finish_all e (s # symbols) ls st) = map Inr (fst (finish e s l st) # sps)"
    using sps(1) ls(1) by (simp add: case_prod_unfold Let_def)
  have 2: "all_settle e (s # symbols) ls (fst (finish e s l st) # sps)"
    using sps(2) ls(1) may_settle_finish [of e s l st]
    by (auto simp: all_settle_def nth_Cons split: nat.splits)
  show ?case using 1 2 by blast
qed

lemma resume_at_settle:
  "length ls = length symbols \<Longrightarrow>
   all_settle e symbols (fst (resume_at e symbols i ls st)) sps \<Longrightarrow> all_settle e symbols ls sps"
proof -
  assume len: "length ls = length symbols"
  assume a: "all_settle e symbols (fst (resume_at e symbols i ls st)) sps"
  show ?thesis
  proof (cases "i < length ls")
    case False
    then show ?thesis using a by (simp add: resume_at_def)
  next
    case True
    have upd: "fst (resume_at e symbols i ls st) = ls[i := fst (resume e (symbols ! i) (ls ! i) st)]"
      using True len by (simp add: resume_at_def case_prod_unfold Let_def)
    have all: "\<And>j. j < length symbols \<Longrightarrow>
        may_settle e (symbols ! j) (ls[i := fst (resume e (symbols ! i) (ls ! i) st)] ! j) (sps ! j)"
      using a upd by (simp add: all_settle_def)
    have "may_settle e (symbols ! j) (ls ! j) (sps ! j)" if j: "j < length symbols" for j
    proof (cases "j = i")
      case True
      have "may_settle e (symbols ! i) (fst (resume e (symbols ! i) (ls ! i) st)) (sps ! i)"
        using all [of i] j True len by simp
      then show ?thesis using True by (simp add: may_settle_resume)
    next
      case False
      then show ?thesis using all [of j] j by simp
    qed
    then show ?thesis using a by (simp add: all_settle_def)
  qed
qed

lemma resume_at_length: "length (fst (resume_at e symbols i ls st)) = length ls"
  by (simp add: resume_at_def case_prod_unfold Let_def)

lemma io_loop_settle:
  "length ls = length symbols \<Longrightarrow>
   all_settle e symbols (fst (io_loop e symbols order ls st)) sps \<Longrightarrow> all_settle e symbols ls sps"
proof (induction order arbitrary: ls st)
  case Nil
  then show ?case by simp
next
  case (Cons i order)
  have len: "length (fst (resume_at e symbols i ls st)) = length symbols"
    using Cons.prems(1) by (simp add: resume_at_length)
  have "all_settle e symbols (fst (resume_at e symbols i ls st)) sps"
    using Cons.IH [OF len, of "snd (resume_at e symbols i ls st)"] Cons.prems(2)
    by (simp add: case_prod_unfold Let_def)
  then show ?case using resume_at_settle Cons.prems(1) by blast
qed

lemma io_loop_length: "length (fst (io_loop e symbols order ls st)) = length ls"
  by (induction order arbitrary: ls st) (simp_all add: case_prod_unfold Let_def resume_at_length)

lemma catch_rejected_length:
  "length ls = length symbols \<Longrightarrow> length (fst (catch_rejected e symbols ls st)) = length ls"
proof (induction symbols arbitrary: ls st)
  case Nil
  then show ?case by simp
next
  case (Cons s symbols)
  then obtain l ls' where ls: "ls = l # ls'" "length ls' = length symbols"
    by (cases ls) auto
  show ?case using ls Cons.IH [OF ls(2)] by (simp add: case_prod_unfold Let_def)
qed

lemma catch_rejected_settle:
  "length ls = length symbols \<Longrightarrow>
   all_settle e symbols (fst (catch_rejected e symbols ls st)) sps \<Longrightarrow> all_settle e symbols ls sps"
proof (induction symbols arbitrary: ls st sps)
  case Nil
  then show ?case by (simp add: all_settle_def)
next
  case (Cons s symbols)
  then obtain l ls' where ls: "ls = l # ls'" "length ls' = length symbols"
    by (cases ls) auto
  define r where "r = (case l of Rejected err \<Rightarrow> resume e s l st | _ \<Rightarrow> (l, st))"
  have eq: "fst (catch_rejected e (s # symbols) ls st) =
      fst r # fst (catch_rejected e symbols ls' (snd r))"
    using ls(1) by (simp add: case_prod_unfold Let_def r_def)
  obtain p ps where sps: "sps = p # ps"
    using Cons.prems(2) by (cases sps) (auto simp: all_settle_def)
  have hd: "may_settle e s (fst r) p"
    using Cons.prems(2) eq sps by (auto simp: all_settle_def)
  have tl: "all_settle e symbols (fst (catch_rejected e symbols ls' (snd r))) ps"
    using Cons.prems(2) eq sps by (auto simp: all_settle_def)
  have tl': "all_settle e symbols ls' ps"
    using Cons.IH [OF ls(2) tl] .
  have hd': "may_settle e s l p"
    using hd may_settle_resume [of e s l st p] by (cases l) (simp_all add: r_def)
  show ?case
    using hd' tl' ls(1) sps by (auto simp: all_settle_def nth_Cons split: nat.splits)
qed

lemma getMultipleStockPrices_settle:
  "\<exists>sps. fst (getMultipleStockPrices e symbols useCache st) = Inr sps
     \<and> all_settle e symbols (fst (symbols_map e useCache symbols st)) sps"
proof -
  define ls where "ls = fst (symbols_map e useCache symbols st)"
  define st1 where "st1 = snd (symbols_map e useCache symbols st)"
  define ls1 where "ls1 = fst (catch_rejected e symbols ls st1)"
  define st2 where "st2 = snd (catch_rejected e symbols ls st1)"
  define ls2 where "ls2 = fst (io_loop e symbols (io_order e) ls1 st2)"
  define st3 where "st3 = snd (io_loop e symbols (io_order e) ls1 st2)"
  have l0: "length ls = length symbols" by (simp add: ls_def symbols_map_length)
  have l1: "length ls1 = length symbols" using l0 by (simp add: ls1_def catch_rejected_length)
  have l2: "length ls2 = length symbols" using l1 by (simp add: ls2_def io_loop_length)
  obtain sps where sps: "fst (finish_all e symbols ls2 st3) = map Inr sps"
      "all_settle e symbols ls2 sps"
    using finish_all_settle [OF l2] by blast
  have "all_settle e symbols ls1 sps"
    using io_loop_settle [OF l1] sps(2) unfolding ls2_def by blast
  then have a: "all_settle e symbols ls sps"
    using catch_rejected_settle [OF l0] unfolding ls1_def by blast
  have "fst (getMultipleStockPrices e symbols useCache st) = Promise_all (map Inr sps)"
    using sps(1)
    by (simp add: getMultipleStockPrices_def case_prod_unfold Let_def ls_def st1_def ls1_def
        st2_def ls2_def st3_def)
  then show ?thesis using a by (auto simp: Promise_all_Inr ls_def)
qed

text \<open>
  A lookup that runs alone does what \<open>getStockPrice\<close> does, followed by the handler of
  the array when it fails; so does a batch of one symbol, in whatever order its waits
  end.
\<close>

lemma finish_axios_fetch:
  "finish_axios e smb (normalizeSymbol n) (emit (QuoteRequested (normalizeSymbol n)) st) =
     (case fetchPriceFromAPI e n st of
        (Inr stockPrice, st1) \<Rightarrow> (stockPrice, st1)
      | (Inl err, st1) \<Rightarrow> catch_handler e smb err st1)"
  by (auto simp: finish_axios_def after_axios_def response_price_def fetchPriceFromAPI_def
      fetch_try_def updatePriceCache_def after_upsert_def catch_handler_def Let_def Date_now_def
      split: AxiosOutcome.splits Chart.splits JsonNumber.splits prod.splits sum.splits)

lemma finish_start:
  "finish e smb (fst (getStockPrice_start e smb useCache st))
       (snd (getStockPrice_start e smb useCache st)) =
     (case getStockPrice e smb useCache st of
        (Inr stockPrice, st1) \<Rightarrow> (stockPrice, st1)
      | (Inl err, st1) \<Rightarrow> catch_handler e smb err st1)"
proof -
  obtain allowed st1 where rl: "checkRateLimit e ''default'' st = (allowed, st1)"
    by (cases "checkRateLimit e ''default'' st")
  obtain c st2 where gc: "getCachedPrice e (normalizeSymbol smb) st1 = (c, st2)"
    by (cases "getCachedPrice e (normalizeSymbol smb) st1")
  show ?thesis
    using rl gc
    by (cases c)
       (simp_all add: getStockPrice_start_def getStockPrice_def finish_def after_findUnique_def
          finish_axios_fetch Let_def)
qed


lemma io_loop_single:
  "\<exists>l' st'. io_loop e [s] order [l] st = ([l'], st') \<and> finish e s l' st' = finish e s l st"
proof (induction order arbitrary: l st)
  case Nil
  then show ?case by simp
next
  case (Cons i order)
  show ?case
  proof (cases "i = 0")
    case True
    obtain l1 st1 where r: "resume e s l st = (l1, st1)"
      by (cases "resume e s l st")
    have f: "finish e s l1 st1 = finish e s l st"
      using finish_resume [of e s l st] r by simp
    obtain l' st' where "io_loop e [s] order [l1] st1 = ([l'], st')"
        "finish e s l' st' = finish e s l1 st1"
      using Cons.IH [of l1 st1] by blast
    then show ?thesis
      using True r f by (simp add: resume_at_def)
  next
    case False
    then show ?thesis
      using Cons.IH [of l st] by (simp add: resume_at_def)
  qed
qed

lemma getMultipleStockPrices_single:
  "getMultipleStockPrices e [s] useCache st =
     (case getStockPrice e s useCache st of
        (Inr stockPrice, st1) \<Rightarrow> (Inr [stockPrice], st1)
      | (Inl err, st1) \<Rightarrow>
          (case catch_handler e s err st1 of (entry, st2) \<Rightarrow> (Inr [entry], st2)))"
proof -
  obtain l0 st0 where s0: "getStockPrice_start e s useCache st = (l0, st0)"
    by (cases "getStockPrice_start e s useCache st")
  define r where "r = (case l0 of Rejected err \<Rightarrow> resume e s l0 st0 | _ \<Rightarrow> (l0, st0))"
  obtain l1 st1 where r1: "r = (l1, st1)"
    by (cases r)
  have f1: "finish e s l1 st1 = finish e s l0 st0"
    using r1 finish_resume [of e s l0 st0] by (cases l0) (auto simp: r_def)
  obtain l2 st2 where io: "io_loop e [s] (io_order e) [l1] st1 = ([l2], st2)"
      and f2: "finish e s l2 st2 = finish e s l1 st1"
    using io_loop_single [of e s "io_order e" l1 st1] by blast
  obtain entry st3 where f3: "finish e s l2 st2 = (entry, st3)"
    by (cases "finish e s l2 st2")
  have "getMultipleStockPrices e [s] useCache st = (Inr [entry], st3)"
    using s0 r1 io f3 by (simp add: getMultipleStockPrices_def r_def)
  moreover have "finish e s l0 st0 =
     (case getStockPrice e s useCache st of
        (Inr stockPrice, st1) \<Rightarrow> (stockPrice, st1)
      | (Inl err, st1) \<Rightarrow> catch_handler e s err st1)"
    using finish_start [of e s useCache st] s0 by simp
  ultimately show ?thesis
    using f1 f2 f3 by (auto split: prod.splits sum.splits)
qed

section \<open>Facts about the routes\<close>

lemma ev_split21:
  "splitSymbols example_query = oversized_batch"
  by code_simp

lemma example_oversized:
  "map_sum message (map error)
        (fst (getMultipleStockPrices example_env oversized_batch True example_state)) =
      Inr (map (\<lambda>s. Some (''Stock symbol not found: '' @ s)) oversized_batch)"
  "rateLimitStore
        (snd (getMultipleStockPrices example_env oversized_batch True example_state))
        ''default'' = Some \<lparr>count = 21, resetTime = 1060000\<rparr>"
  "trace (snd (getMultipleStockPrices example_env oversized_batch True example_state)) =
      replicate 21 (RateLimitChecked ''default'')
      @ concat (map (\<lambda>s. [CacheRead s, QuoteRequested s])
          (''META'' # ''GOOG'' # ''AMZN'' # drop 3 oversized_batch))"
  by code_simp+

section \<open>Facts about the push notifications\<close>

lemma results_forEach_count:
  "results_forEach results successCount =
     successCount + length (filter (\<lambda>r. r = None) results)"
  by (induction results arbitrary: successCount) (auto split: option.splits)

lemma successes_and_failures:
  "length (filter (\<lambda>r. r = None) results) =
     length results - length (filter (\<lambda>r. r \<noteq> None) results)"
  using sum_length_filter_compl [of "\<lambda>r. r = None" results] by simp

lemma getFirebaseAdmin_frame:
  "db_deviceToken (snd (getFirebaseAdmin e st)) = db_deviceToken st"
  "trace (snd (getFirebaseAdmin e st)) = trace st"
  by (simp_all add: getFirebaseAdmin_def split: option.splits)

lemma getFirebaseAdmin_ok:
  "\<not> window_defined e \<Longrightarrow> adminApp st \<or> firebase_admin_throws e = None \<Longrightarrow>
   fst (getFirebaseAdmin e st) = Inr ()"
  by (auto simp: getFirebaseAdmin_def)

lemma example_gateway:
  "sendToDevice example_env [''token-1'', ''token-2'', ''token-3''] example_payload =
     DevicesResponse [None, Some ''messaging/registration-token-not-registered'', None]"
  by (simp add: example_env_def)

lemma example_tokens:
  "map (\<lambda>d. (d_token d, d_isActive d)) (db_deviceToken example_state) =
     [(''token-1'', True), (''token-2'', True), (''token-3'', True)]"
  by (simp add: example_state_def)

section \<open>Facts about the alert routes\<close>

lemma alert_deleteMany_single:
  assumes "A \<in> set (db_alert st)"
  shows "db_triggeredAlert (snd (alert_deleteMany [a_id A] st)) =
           filter (\<lambda>t. t_alertId t \<noteq> a_id A) (db_triggeredAlert st)"
    and "db_alert (snd (alert_deleteMany [a_id A] st)) =
           filter (\<lambda>a. a_id a \<noteq> a_id A) (db_alert st)"
proof -
  have "set (map a_id (filter (\<lambda>a. a_id a \<in> set [a_id A]) (db_alert st))) = {a_id A}"
    using assms by auto
  then show "db_triggeredAlert (snd (alert_deleteMany [a_id A] st)) =
           filter (\<lambda>t. t_alertId t \<noteq> a_id A) (db_triggeredAlert st)"
    by (simp add: alert_deleteMany_def Let_def)
  show "db_alert (snd (alert_deleteMany [a_id A] st)) =
           filter (\<lambda>a. a_id a \<noteq> a_id A) (db_alert st)"
    by (simp add: alert_deleteMany_def Let_def)
qed

lemma alert_deleteMany_frame:
  "db_triggeredAlert (snd (alert_deleteMany ids (emit ev st))) =
     db_triggeredAlert (snd (alert_deleteMany ids st))"
  "db_alert (snd (alert_deleteMany ids (emit ev st))) = db_alert (snd (alert_deleteMany ids st))"
  by (simp_all add: alert_deleteMany_def emit_def Let_def)

lemma example_alerts:
  "db_alert example_state =
     [\<lparr>a_id = ''a1'', a_symbol = ''AAPL'', a_targetPrice = 150, a_condition = ABOVE,
       a_isActive = True, a_createdAt = 0, a_updatedAt = 0\<rparr>,
      \<lparr>a_id = ''a2'', a_symbol = ''MSFT'', a_targetPrice = 250, a_condition = BELOW,
       a_isActive = True, a_createdAt = 0, a_updatedAt = 0\<rparr>]"
  "map (\<lambda>t. (t_id t, t_alertId t)) (db_triggeredAlert example_state) =
     [(''t1'', ''a1''), (''t2'', ''a2''), (''t3'', ''a1'')]"
  "map (\<lambda>t. (t_id t, t_alertId t))
     (filter (\<lambda>t. t_alertId t \<noteq> ''a1'') (db_triggeredAlert example_state)) = [(''t2'', ''a2'')]"
  by (simp_all add: example_state_def)

section \<open>Properties of the rate limiter\<close>

text \<open>
  C3. For every key, window and budget: on first use of the key, or when the clock
  reading is past the window's reset time, \<open>checkRateLimit_at\<close> sets the count to 1 and returns
  true; while the count is below the budget it adds one to the count and returns true;
  once the count has reached the budget it returns false and leaves the store as it is.
  With budget 2, three calls for a key whose window starts with the first call and has
  not elapsed at the other two give true, true, false. \<open>checkRateLimit\<close> is \<open>checkRateLimit_at\<close> at
  budget 100 and window 60000 ms, on the current clock reading.
\<close>

theorem checkRateLimit_contract:
  "(store key = None \<or> (\<exists>r. store key = Some r \<and> now > resetTime r) \<longrightarrow>
      checkRateLimit_at budget window now key store =
        (True, store(key \<mapsto> \<lparr>count = 1, resetTime = now + window\<rparr>)))
   \<and> (\<forall>r. store key = Some r \<and> now \<le> resetTime r \<and> count r < budget \<longrightarrow>
      checkRateLimit_at budget window now key store = (True, store(key \<mapsto> r\<lparr>count := count r + 1\<rparr>)))
   \<and> (\<forall>r. store key = Some r \<and> now \<le> resetTime r \<and> budget \<le> count r \<longrightarrow>
      checkRateLimit_at budget window now key store = (False, store))
   \<and> ((store key = None \<or> (\<exists>r. store key = Some r \<and> t1 > resetTime r)) \<and>
        t2 \<le> t1 + window \<and> t3 \<le> t1 + window \<longrightarrow>
      checkRateLimit_seq 2 window key [t1, t2, t3] store = [True, True, False])
   \<and> fst (checkRateLimit e key st) =
        fst (checkRateLimit_at 100 60000 (clock e (ticks st)) key (rateLimitStore st))
   \<and> rateLimitStore (snd (checkRateLimit e key st)) =
        snd (checkRateLimit_at 100 60000 (clock e (ticks st)) key (rateLimitStore st))"
proof -
  have first_use: "checkRateLimit_at budget window now key store =
        (True, store(key \<mapsto> \<lparr>count = 1, resetTime = now + window\<rparr>))"
    if "store key = None \<or> (\<exists>r. store key = Some r \<and> now > resetTime r)"
    for budget window now and store :: RateLimitStore
    using that by (auto simp: checkRateLimit_at_def)
  have below: "checkRateLimit_at budget window now key store = (True, store(key \<mapsto> r\<lparr>count := count r + 1\<rparr>))"
    if "store key = Some r" "now \<le> resetTime r" "count r < budget" for r
    using that by (simp add: checkRateLimit_at_def)
  have at_budget: "checkRateLimit_at budget window now key store = (False, store)"
    if "store key = Some r" "now \<le> resetTime r" "budget \<le> count r" for r
    using that by (simp add: checkRateLimit_at_def)
  have three: "checkRateLimit_seq 2 window key [t1, t2, t3] store = [True, True, False]"
    if h: "store key = None \<or> (\<exists>r. store key = Some r \<and> t1 > resetTime r)"
      and "t2 \<le> t1 + window" "t3 \<le> t1 + window"
  proof -
    have "checkRateLimit_at 2 window t1 key store =
        (True, store(key \<mapsto> \<lparr>count = 1, resetTime = t1 + window\<rparr>))"
      using h by (rule first_use)
    then show ?thesis
      using that(2,3) by (simp add: checkRateLimit_at_def)
  qed
  have lim: "fst (checkRateLimit e key st) =
        fst (checkRateLimit_at 100 60000 (clock e (ticks st)) key (rateLimitStore st))"
    by (simp add: checkRateLimit_def Date_now_def emit_def RATE_LIMIT_REQUESTS_def
        RATE_LIMIT_WINDOW_def split: prod.splits)
  have store: "rateLimitStore (snd (checkRateLimit e key st)) =
        snd (checkRateLimit_at 100 60000 (clock e (ticks st)) key (rateLimitStore st))"
    by (simp add: checkRateLimit_def Date_now_def emit_def RATE_LIMIT_REQUESTS_def
        RATE_LIMIT_WINDOW_def split: prod.splits)
  show ?thesis
    using first_use below at_budget three lim store by blast
qed

theorem checkRateLimit_contract_witness:
  "checkRateLimit_seq 2 60000 ''k'' [1000, 2000, 61000] Map.empty = [True, True, False]
   \<and> checkRateLimit_at 2 60000 1000 ''k'' Map.empty =
        (True, Map.empty(''k'' \<mapsto> \<lparr>count = 1, resetTime = 61000\<rparr>))
   \<and> checkRateLimit_at 2 60000 2000 ''k'' (Map.empty(''k'' \<mapsto> \<lparr>count = 1, resetTime = 61000\<rparr>)) =
        (True, Map.empty(''k'' \<mapsto> \<lparr>count = 2, resetTime = 61000\<rparr>))
   \<and> checkRateLimit_at 2 60000 61000 ''k'' (Map.empty(''k'' \<mapsto> \<lparr>count = 2, resetTime = 61000\<rparr>)) =
        (False, Map.empty(''k'' \<mapsto> \<lparr>count = 2, resetTime = 61000\<rparr>))"
proof -
  note c1 = checkRateLimit_contract [of Map.empty "''k''" 1000 2 60000 2000 61000]
  note c2 = checkRateLimit_contract
    [of "Map.empty(''k'' \<mapsto> \<lparr>count = 1, resetTime = 61000\<rparr>)" "''k''" 2000 2 60000]
  note c3 = checkRateLimit_contract
    [of "Map.empty(''k'' \<mapsto> \<lparr>count = 2, resetTime = 61000\<rparr>)" "''k''" 61000 2 60000]
  show ?thesis
    using c1 c2 c3 by simp
qed

section \<open>Properties of the price cache\<close>

text \<open>
  C1, as the code has it. \<open>getStockPrice\<close> asks the rate limiter (key \<open>default\<close>) before
  it reads the cache. For a valid symbol, \<open>useCache\<close> true and a readable cache row for
  the symbol whose age at the reading of \<open>isCacheValid\<close> is below five minutes: when the
  limiter allows the call, the cached price is returned and the effects of the call are
  the limiter check and the cache read only, so the quote provider is not called; when
  the limiter denies the call, the call fails with the rate limit error. In both cases
  the limiter's store is updated as \<open>checkRateLimit_at\<close> says, so a cache hit counts against the
  budget, and the cache table is unchanged.
\<close>

theorem getStockPrice_cache_hit:
  assumes valid: "isValidStockSymbol (normalizeSymbol s)"
    and readable: "findUnique_throws e (normalizeSymbol s) = None"
    and cached: "find (\<lambda>r. r_symbol r = normalizeSymbol s) (db_stockPrice st) = Some row"
    and fresh: "clock e (Suc (ticks st)) - r_updatedAt row < 5 * 60 * 1000"
  shows "(fst (checkRateLimit_at 100 60000 (clock e (ticks st)) ''default'' (rateLimitStore st)) \<longrightarrow>
            fst (getStockPrice e s True st) =
              Inr \<lparr>symbol = r_symbol row, price = r_price row, change = None,
                   changePercent = None, timestamp = r_updatedAt row, error = None\<rparr>
            \<and> trace (snd (getStockPrice e s True st)) =
                trace st @ [RateLimitChecked ''default'', CacheRead (normalizeSymbol s)])
       \<and> (\<not> fst (checkRateLimit_at 100 60000 (clock e (ticks st)) ''default'' (rateLimitStore st)) \<longrightarrow>
            fst (getStockPrice e s True st) =
              Inl (Error ''Rate limit exceeded. Please try again later.'')
            \<and> trace (snd (getStockPrice e s True st)) = trace st @ [RateLimitChecked ''default''])
       \<and> rateLimitStore (snd (getStockPrice e s True st)) =
            snd (checkRateLimit_at 100 60000 (clock e (ticks st)) ''default'' (rateLimitStore st))
       \<and> db_stockPrice (snd (getStockPrice e s True st)) = db_stockPrice st"
  using assms
  by (simp add: getStockPrice_def checkRateLimit_eq getCachedPrice_def normalizeSymbol_idem
      stockPrice_findUnique_def emit_def isCacheValid_def Date_now_def CACHE_DURATION_def Let_def)

theorem getStockPrice_cache_hit_witness:
  "isValidStockSymbol (normalizeSymbol ''AAPL'')
   \<and> findUnique_throws example_env (normalizeSymbol ''AAPL'') = None
   \<and> find (\<lambda>r. r_symbol r = normalizeSymbol ''AAPL'') (db_stockPrice example_state) =
        Some \<lparr>r_symbol = ''AAPL'', r_price = 149, r_updatedAt = 900000\<rparr>
   \<and> clock example_env (Suc (ticks example_state)) - 900000 < 5 * 60 * 1000
   \<and> fst (checkRateLimit_at 100 60000 (clock example_env (ticks example_state)) ''default''
        (rateLimitStore example_state))
   \<and> fst (getStockPrice example_env ''AAPL'' True example_state) =
        Inr \<lparr>symbol = ''AAPL'', price = 149, change = None, changePercent = None,
             timestamp = 900000, error = None\<rparr>
   \<and> trace (snd (getStockPrice example_env ''AAPL'' True example_state)) =
        [RateLimitChecked ''default'', CacheRead ''AAPL'']
   \<and> rateLimitStore (snd (getStockPrice example_env ''AAPL'' True example_state)) ''default'' =
        Some \<lparr>count = 1, resetTime = 1060000\<rparr>"
proof -
  have valid: "isValidStockSymbol (normalizeSymbol ''AAPL'')"
    by (simp add: ev_norm_AAPL ev_valid_AAPL)
  have readable: "findUnique_throws example_env (normalizeSymbol ''AAPL'') = None"
    by (simp add: example_env_simps)
  have cached: "find (\<lambda>r. r_symbol r = normalizeSymbol ''AAPL'') (db_stockPrice example_state) =
        Some \<lparr>r_symbol = ''AAPL'', r_price = 149, r_updatedAt = 900000\<rparr>"
    by (simp add: example_state_simps ev_norm_AAPL)
  have fresh: "clock example_env (Suc (ticks example_state))
        - r_updatedAt \<lparr>r_symbol = ''AAPL'', r_price = 149, r_updatedAt = 900000\<rparr> < 5 * 60 * 1000"
    by (simp add: example_env_simps example_state_simps)
  show ?thesis
    using getStockPrice_cache_hit [OF valid readable cached fresh] valid readable cached fresh
    by (simp add: checkRateLimit_at_def ev_norm_AAPL example_env_simps example_state_simps)
qed

text \<open>
  C1 as stated fails: with a fresh cache row for AAPL and the budget of the running
  window used up, the call is denied; and a cache hit on a fresh limiter leaves a count
  of one behind.
\<close>

theorem cache_hit_is_metered:
  "isValidStockSymbol (normalizeSymbol ''AAPL'')
   \<and> find (\<lambda>r. r_symbol r = normalizeSymbol ''AAPL'') (db_stockPrice exhausted_state) =
        Some \<lparr>r_symbol = ''AAPL'', r_price = 149, r_updatedAt = 900000\<rparr>
   \<and> clock example_env (Suc (ticks exhausted_state)) - 900000 < 5 * 60 * 1000
   \<and> fst (getStockPrice example_env ''AAPL'' True exhausted_state) =
        Inl (Error ''Rate limit exceeded. Please try again later.'')
   \<and> trace (snd (getStockPrice example_env ''AAPL'' True exhausted_state)) =
        [RateLimitChecked ''default'']
   \<and> rateLimitStore example_state ''default'' = None
   \<and> fst (getStockPrice example_env ''AAPL'' True example_state) =
        Inr \<lparr>symbol = ''AAPL'', price = 149, change = None, changePercent = None,
             timestamp = 900000, error = None\<rparr>
   \<and> rateLimitStore (snd (getStockPrice example_env ''AAPL'' True example_state)) ''default'' =
        Some \<lparr>count = 1, resetTime = 1060000\<rparr>"
  by (simp add: getStockPrice_def checkRateLimit_eq getCachedPrice_def ev_norm_AAPL ev_valid_AAPL
      stockPrice_findUnique_def emit_def isCacheValid_def Date_now_def CACHE_DURATION_def Let_def
      checkRateLimit_at_def example_env_simps example_state_simps exhausted_state_simps)

text \<open>
  C9. Failures of the cache table do not show at \<open>getStockPrice\<close>. When the cache read
  throws, the call gives what a forced refresh (\<open>useCache\<close> false) gives, and for a
  valid symbol that the limiter lets through the provider is asked. The result does
  not depend on whether the cache write throws. A valid symbol that the limiter lets
  through and for which the provider has a price gets that price on a forced refresh,
  whatever the database does.
\<close>

theorem cache_failures_invisible:
  "(findUnique_throws e (normalizeSymbol s) = Some m \<longrightarrow>
      fst (getStockPrice e s True st) = fst (getStockPrice e s False st)
      \<and> (isValidStockSymbol (normalizeSymbol s)
           \<and> fst (checkRateLimit_at 100 60000 (clock e (ticks st)) ''default'' (rateLimitStore st)) \<longrightarrow>
         QuoteRequested (normalizeSymbol s) \<in> set (trace (snd (getStockPrice e s True st)))))
   \<and> fst (getStockPrice (e\<lparr>upsert_throws := u\<rparr>) s useCache st) =
       fst (getStockPrice e s useCache st)
   \<and> (isValidStockSymbol (normalizeSymbol s)
        \<and> fst (checkRateLimit_at 100 60000 (clock e (ticks st)) ''default'' (rateLimitStore st))
        \<and> axios_get_chart e (normalizeSymbol s) = Response (Result meta)
        \<and> js_or (regularMarketPrice meta) (previousClose meta) = Number p \<and> p \<noteq> 0 \<longrightarrow>
      (\<exists>sp. fst (getStockPrice e s False st) = Inr sp \<and> price sp = p))"
proof -
  let ?n = "normalizeSymbol s"
  obtain allowed st1 where rl: "checkRateLimit e ''default'' st = (allowed, st1)"
    by (cases "checkRateLimit e ''default'' st")
  have allowed_eq: "allowed = fst (checkRateLimit_at 100 60000 (clock e (ticks st)) ''default'' (rateLimitStore st))"
    using rl by (simp add: checkRateLimit_eq)
  have rd: "fst (getStockPrice e s True st) = fst (getStockPrice e s False st)"
    if t: "findUnique_throws e ?n = Some m"
  proof -
    have "findUnique_throws e (normalizeSymbol ?n) = Some m"
      using t by (simp add: normalizeSymbol_idem)
    then have gc: "getCachedPrice e ?n st1 = (None, emit (CacheRead ?n) st1)"
      using getCachedPrice_throws [of e ?n m st1] by (simp add: normalizeSymbol_idem)
    have "fst (fetchPriceFromAPI e ?n (emit (CacheRead ?n) st1)) = fst (fetchPriceFromAPI e ?n st1)"
      by (rule fetchPriceFromAPI_ticks) (simp add: emit_def)
    then show ?thesis
      using rl gc by (simp add: getStockPrice_def Let_def)
  qed
  have qt: "QuoteRequested ?n \<in> set (trace (snd (getStockPrice e s True st)))"
    if t: "findUnique_throws e ?n = Some m" and v: "isValidStockSymbol ?n"
      and a: "fst (checkRateLimit_at 100 60000 (clock e (ticks st)) ''default'' (rateLimitStore st))"
  proof -
    have "findUnique_throws e (normalizeSymbol ?n) = Some m"
      using t by (simp add: normalizeSymbol_idem)
    then have gc: "getCachedPrice e ?n st1 = (None, emit (CacheRead ?n) st1)"
      using getCachedPrice_throws [of e ?n m st1] by (simp add: normalizeSymbol_idem)
    have "getStockPrice e s True st = fetchPriceFromAPI e ?n (emit (CacheRead ?n) st1)"
      using rl gc v a allowed_eq by (simp add: getStockPrice_def Let_def)
    then show ?thesis
      using fetch_trace [of ?n e "emit (CacheRead ?n) st1"] by (simp add: normalizeSymbol_idem)
  qed
  have wr: "fst (getStockPrice (e\<lparr>upsert_throws := u\<rparr>) s useCache st) =
       fst (getStockPrice e s useCache st)"
    by (simp add: getStockPrice_def Let_def checkRateLimit_upsert getCachedPrice_upsert
        fetchPriceFromAPI_upsert split: prod.splits option.splits)
  have fr: "\<exists>sp. fst (getStockPrice e s False st) = Inr sp \<and> price sp = p"
    if v: "isValidStockSymbol ?n"
      and a: "fst (checkRateLimit_at 100 60000 (clock e (ticks st)) ''default'' (rateLimitStore st))"
      and q: "axios_get_chart e ?n = Response (Result meta)"
      and pr: "js_or (regularMarketPrice meta) (previousClose meta) = Number p" "p \<noteq> 0"
  proof -
    have "axios_get_chart e (normalizeSymbol ?n) = Response (Result meta)"
      using q by (simp add: normalizeSymbol_idem)
    then have "\<exists>sp. fst (fetchPriceFromAPI e ?n st1) = Inr sp \<and> price sp = p"
      using pr by (rule fetchPriceFromAPI_price)
    moreover have "getStockPrice e s False st = fetchPriceFromAPI e ?n st1"
      using rl v a allowed_eq by (simp add: getStockPrice_def Let_def)
    ultimately show ?thesis by simp
  qed
  show ?thesis
    using rd qt wr fr by blast
qed

theorem cache_failures_invisible_witness:
  "findUnique_throws failing_db_env (normalizeSymbol ''AAPL'') =
      Some ''P1001: cannot reach database server''
   \<and> upsert_throws failing_db_env (normalizeSymbol ''AAPL'') =
      Some ''P1001: cannot reach database server''
   \<and> isValidStockSymbol (normalizeSymbol ''AAPL'')
   \<and> fst (checkRateLimit_at 100 60000 (clock failing_db_env (ticks example_state)) ''default''
        (rateLimitStore example_state))
   \<and> (\<exists>sp. fst (getStockPrice failing_db_env ''AAPL'' True example_state) = Inr sp
         \<and> price sp = 150)
   \<and> QuoteRequested ''AAPL''
        \<in> set (trace (snd (getStockPrice failing_db_env ''AAPL'' True example_state)))"
proof -
  let ?meta = "\<lparr>regularMarketPrice = Number 150, previousClose = Number 148\<rparr>"
  have t: "findUnique_throws failing_db_env (normalizeSymbol ''AAPL'') =
      Some ''P1001: cannot reach database server''"
    and w: "upsert_throws failing_db_env (normalizeSymbol ''AAPL'') =
      Some ''P1001: cannot reach database server''"
    by (simp_all add: failing_db_env_simps)
  have v: "isValidStockSymbol (normalizeSymbol ''AAPL'')"
    by (simp add: ev_norm_AAPL ev_valid_AAPL)
  have a: "fst (checkRateLimit_at 100 60000 (clock failing_db_env (ticks example_state)) ''default''
        (rateLimitStore example_state))"
    by (simp add: checkRateLimit_at_def example_state_simps)
  have q: "axios_get_chart failing_db_env (normalizeSymbol ''AAPL'') = Response (Result ?meta)"
    by (simp add: ev_norm_AAPL failing_db_env_simps)
  have p: "js_or (regularMarketPrice ?meta) (previousClose ?meta) = Number 150" "(150::real) \<noteq> 0"
    by (simp_all add: js_or_def json_truthy_def)
  note c = cache_failures_invisible [where e = failing_db_env and s = "''AAPL''"
      and m = "''P1001: cannot reach database server''" and st = example_state
      and meta = ?meta and p = 150]
  have "\<exists>sp. fst (getStockPrice failing_db_env ''AAPL'' True example_state) = Inr sp
         \<and> price sp = 150"
    using c t v a q p by metis
  moreover have "QuoteRequested (normalizeSymbol ''AAPL'')
        \<in> set (trace (snd (getStockPrice failing_db_env ''AAPL'' True example_state)))"
    using c t v a by blast
  ultimately show ?thesis
    using t w v a by (simp add: ev_norm_AAPL)
qed

text \<open>
  C10. Normalising a symbol twice is the same as normalising it once. The normalised
  symbol is the input trimmed and in upper case: the input is white space (U+0009 to
  U+000D, U+0020, U+00A0), a middle part that neither begins nor ends with white space,
  and white space again, and the normalised symbol is the middle part with every small
  letter replaced by its capital (\<open>SS\<close> for U+00DF) and every other code unit kept.
  Every successful result of \<open>getStockPrice\<close>, from the cache or from the provider,
  carries the normalised input as its symbol, and that symbol matches
  \<^verbatim>\<open>[A-Z]{1,5}\<close>: one to five code units, all of them from U+0041 to U+005A.
\<close>

theorem getStockPrice_symbol_normalized:
  "normalizeSymbol (normalizeSymbol s) = normalizeSymbol s
   \<and> (\<exists>pre mid suf.
        s = pre @ mid @ suf
        \<and> list_all (\<lambda>c. (of_char c :: nat) \<in> {9, 10, 11, 12, 13, 32, 160}) pre
        \<and> list_all (\<lambda>c. (of_char c :: nat) \<in> {9, 10, 11, 12, 13, 32, 160}) suf
        \<and> (mid = []
           \<or> ((of_char (hd mid) :: nat) \<notin> {9, 10, 11, 12, 13, 32, 160}
              \<and> (of_char (last mid) :: nat) \<notin> {9, 10, 11, 12, 13, 32, 160}))
        \<and> normalizeSymbol s =
            concat (map (\<lambda>c.
              if (of_char c :: nat) = 223 then ''SS''
              else if (of_char c :: nat) \<in> {97..122} \<union> {224..246} \<union> {248..254}
              then [char_of ((of_char c :: nat) - 32)]
              else [c]) mid))
   \<and> (fst (getStockPrice e s useCache st) = Inr p \<longrightarrow>
        symbol p = normalizeSymbol s \<and> symbolRegex_test (symbol p)
        \<and> 1 \<le> length (symbol p) \<and> length (symbol p) \<le> 5
        \<and> list_all (\<lambda>c. (of_char c :: nat) \<in> {65..90}) (symbol p))"
proof -
  have res: "symbol p = normalizeSymbol s \<and> symbolRegex_test (symbol p)"
    if ok: "fst (getStockPrice e s useCache st) = Inr p"
  proof -
    have valid: "isValidStockSymbol (normalizeSymbol s)"
      using ok by (auto simp: getStockPrice_def Let_def split: if_splits)
    obtain allowed st1 where rl: "checkRateLimit e ''default'' st = (allowed, st1)"
      by (cases "checkRateLimit e ''default'' st")
    obtain c st2 where gc: "getCachedPrice e (normalizeSymbol s) st1 = (c, st2)"
      by (cases "getCachedPrice e (normalizeSymbol s) st1")
    have allowed: allowed
      using ok valid rl by (auto simp: getStockPrice_def Let_def split: if_splits)
    consider (hit) "useCache" "c = Some p"
      | (miss) "useCache" "c = None" "fst (fetchPriceFromAPI e (normalizeSymbol s) st2) = Inr p"
      | (refresh) "\<not> useCache" "fst (fetchPriceFromAPI e (normalizeSymbol s) st1) = Inr p"
      using ok valid rl gc allowed
      by (cases c; cases useCache) (auto simp: getStockPrice_def Let_def)
    then have "symbol p = normalizeSymbol (normalizeSymbol s)"
    proof cases
      case hit
      then show ?thesis using getCachedPrice_symbol [of e "normalizeSymbol s" st1 p] gc by simp
    next
      case miss
      then show ?thesis by (simp add: fetchPriceFromAPI_symbol)
    next
      case refresh
      then show ?thesis by (simp add: fetchPriceFromAPI_symbol)
    qed
    then show ?thesis
      using valid by (simp add: normalizeSymbol_idem valid_normalized)
  qed
  have shape: "1 \<le> length (symbol p) \<and> length (symbol p) \<le> 5
      \<and> list_all (\<lambda>c. (of_char c :: nat) \<in> {65..90}) (symbol p)"
    if "symbolRegex_test (symbol p)"
    using that by (simp add: symbolRegex_test_def list_all_iff isUpperAZ_def Let_def)
  obtain pre suf where parts: "s = pre @ trim s @ suf"
      "list_all isWhiteSpace pre" "list_all isWhiteSpace suf"
      "trim s = [] \<or> (\<not> isWhiteSpace (hd (trim s)) \<and> \<not> isWhiteSpace (last (trim s)))"
    using trim_parts [of s] by blast
  have upper: "normalizeSymbol s =
      concat (map (\<lambda>c.
        if (of_char c :: nat) = 223 then ''SS''
        else if (of_char c :: nat) \<in> {97..122} \<union> {224..246} \<union> {248..254}
        then [char_of ((of_char c :: nat) - 32)]
        else [c]) (trim s))"
    unfolding normalizeSymbol_def toUpperCase_def
    by (rule arg_cong [where f = concat], rule map_cong [OF refl], rule toUpperChars_codes)
  have decomp: "\<exists>pre mid suf.
        s = pre @ mid @ suf
        \<and> list_all (\<lambda>c. (of_char c :: nat) \<in> {9, 10, 11, 12, 13, 32, 160}) pre
        \<and> list_all (\<lambda>c. (of_char c :: nat) \<in> {9, 10, 11, 12, 13, 32, 160}) suf
        \<and> (mid = []
           \<or> ((of_char (hd mid) :: nat) \<notin> {9, 10, 11, 12, 13, 32, 160}
              \<and> (of_char (last mid) :: nat) \<notin> {9, 10, 11, 12, 13, 32, 160}))
        \<and> normalizeSymbol s =
            concat (map (\<lambda>c.
              if (of_char c :: nat) = 223 then ''SS''
              else if (of_char c :: nat) \<in> {97..122} \<union> {224..246} \<union> {248..254}
              then [char_of ((of_char c :: nat) - 32)]
              else [c]) mid)"
    apply (rule exI [of _ pre], rule exI [of _ "trim s"], rule exI [of _ suf])
    apply (intro conjI)
        apply (rule parts(1))
       apply (rule parts(2) [unfolded isWhiteSpace_codes])
      apply (rule parts(3) [unfolded isWhiteSpace_codes])
     apply (rule parts(4) [unfolded isWhiteSpace_codes])
    apply (rule upper)
    done
  show ?thesis
    apply (intro conjI impI)
          apply (rule normalizeSymbol_idem)
         apply (rule decomp)
        apply (erule res [THEN conjunct1])
       apply (erule res [THEN conjunct2])
      apply (erule shape [OF res [THEN conjunct2], THEN conjunct1])
     apply (erule shape [OF res [THEN conjunct2], THEN conjunct2, THEN conjunct1])
    apply (erule shape [OF res [THEN conjunct2], THEN conjunct2, THEN conjunct2])
    done
qed

theorem getStockPrice_symbol_normalized_witness:
  "fst (getStockPrice example_env ''  msft '' False example_state) =
      Inr \<lparr>symbol = ''MSFT'', price = 300, change = Some (- 3),
           changePercent = Some (- (100 / 101)), timestamp = 1000001, error = None\<rparr>
   \<and> normalizeSymbol ''  msft '' = ''MSFT''
   \<and> symbolRegex_test ''MSFT''"
proof -
  let ?p = "\<lparr>symbol = ''MSFT'', price = 300, change = Some (- 3),
           changePercent = Some (- (100 / 101)), timestamp = 1000001, error = None\<rparr>"
  note r = getStockPrice_symbol_normalized
      [of "''  msft ''" example_env False example_state ?p,
       THEN conjunct2, THEN conjunct2, THEN mp, OF example_fetch_MSFT]
  have "symbol ?p = normalizeSymbol ''  msft '' \<and> symbolRegex_test (symbol ?p)"
    by (rule conjI [OF r [THEN conjunct1] r [THEN conjunct2, THEN conjunct1]])
  moreover have "symbol ?p = ''MSFT''"
    by simp
  ultimately have a: "normalizeSymbol ''  msft '' = ''MSFT''" and b: "symbolRegex_test ''MSFT''"
    by metis+
  show ?thesis
    by (rule conjI [OF example_fetch_MSFT conjI [OF a b]])
qed

section \<open>Properties of the batch lookup\<close>




text \<open>
  Lookups that overlap: two symbols that the provider does not know are both started
  before the first failure is handled, so that the first entry is stamped with the
  third reading of the clock, and of two lookups of the same symbol the second does not
  find in the cache what the first is about to write there.
\<close>

lemma example_overlap:
  "fst (getMultipleStockPrices example_env [''GOOG'', ''AMZN''] True example_state) =
     Inr [\<lparr>symbol = ''GOOG'', price = 0, change = None, changePercent = None,
           timestamp = 1000002, error = Some ''Stock symbol not found: GOOG''\<rparr>,
          \<lparr>symbol = ''AMZN'', price = 0, change = None, changePercent = None,
           timestamp = 1000003, error = Some ''Stock symbol not found: AMZN''\<rparr>]"
  "trace (snd (getMultipleStockPrices example_env [''MSFT'', ''MSFT''] True example_state)) =
     [RateLimitChecked ''default'', RateLimitChecked ''default'',
      CacheRead ''MSFT'', QuoteRequested ''MSFT'', CacheRead ''MSFT'',
      QuoteRequested ''MSFT'', CacheUpsert ''MSFT'', CacheUpsert ''MSFT'']"
  by code_simp+


section \<open>Properties of the price routes\<close>

text \<open>
  C5 as stated fails. \<open>getMultipleStockPrices\<close> has no bound on the number of symbols
  and no error for too many of them: called with twenty-one symbols it resolves, with
  one entry for each, and it has looked every one of them up. The limiter, unused
  before, has counted twenty-one requests, and the cache has been read and the provider
  asked for each symbol.
\<close>

theorem getMultipleStockPrices_unbounded:
  "20 < length oversized_batch
   \<and> map_sum message (map error)
        (fst (getMultipleStockPrices example_env oversized_batch True example_state)) =
      Inr (map (\<lambda>s. Some (''Stock symbol not found: '' @ s)) oversized_batch)
   \<and> rateLimitStore example_state ''default'' = None
   \<and> rateLimitStore
        (snd (getMultipleStockPrices example_env oversized_batch True example_state))
        ''default'' = Some \<lparr>count = 21, resetTime = 1060000\<rparr>
   \<and> list_all
        (\<lambda>s. CacheRead s
               \<in> set (trace (snd (getMultipleStockPrices example_env oversized_batch True
                     example_state)))
             \<and> QuoteRequested s
               \<in> set (trace (snd (getMultipleStockPrices example_env oversized_batch True
                     example_state))))
        oversized_batch"
  by (simp add: example_oversized example_state_simps) (simp add: oversized_batch_def)

text \<open>
  C5, as the code has it. The bound on the number of symbols is that of the schema of
  the price routes: a request for more than twenty symbols, by \<open>GET\<close> or by \<open>POST\<close>,
  fails at once with status 400 and the error \<open>Invalid symbols parameter\<close>, the same
  answer as for any other list that the schema refuses, before
  \<open>getMultipleStockPrices\<close> is called. The state is left as it was, so that no cache
  read, rate limiter check or provider call takes place for any symbol of the batch.
  \<open>getMultipleStockPrices\<close> itself takes a list of any length and resolves with one
  entry for each of its symbols.
\<close>

theorem oversized_batch_rejected:
  "(20 < length (splitSymbols str) \<longrightarrow>
      GET_prices_symbols e (Some str) useCache st =
        (\<lparr>resp_status = 400, resp_success = False, resp_data = None,
          resp_error = Some ''Invalid symbols parameter'',
          resp_message = Some ''Provide 1-20 valid symbols separated by commas''\<rparr>, st))
   \<and> (20 < length symbols \<longrightarrow>
      POST_prices_symbols e symbols st =
        (\<lparr>resp_status = 400, resp_success = False, resp_data = None,
          resp_error = Some ''Invalid symbols parameter'',
          resp_message = Some ''Provide 1-20 valid symbols in an array''\<rparr>, st))
   \<and> (20 < length symbols \<longrightarrow>
      (\<exists>prices. fst (getMultipleStockPrices e symbols useCache st) = Inr prices
         \<and> length prices = length symbols))"
proof -
  have "str \<noteq> []" if "20 < length (splitSymbols str)"
    using that by (auto simp: splitSymbols_def trim_def)
  then have routes:
    "(20 < length (splitSymbols str) \<longrightarrow>
      GET_prices_symbols e (Some str) useCache st =
        (\<lparr>resp_status = 400, resp_success = False, resp_data = None,
          resp_error = Some ''Invalid symbols parameter'',
          resp_message = Some ''Provide 1-20 valid symbols separated by commas''\<rparr>, st))
   \<and> (20 < length symbols \<longrightarrow>
      POST_prices_symbols e symbols st =
        (\<lparr>resp_status = 400, resp_success = False, resp_data = None,
          resp_error = Some ''Invalid symbols parameter'',
          resp_message = Some ''Provide 1-20 valid symbols in an array''\<rparr>, st))"
    by (auto simp: GET_prices_symbols_def POST_prices_symbols_def multiplePricesSchema_def Let_def)
  obtain sps where "fst (getMultipleStockPrices e symbols useCache st) = Inr sps"
      "all_settle e symbols (fst (symbols_map e useCache symbols st)) sps"
    using getMultipleStockPrices_settle by blast
  then have "\<exists>prices. fst (getMultipleStockPrices e symbols useCache st) = Inr prices
         \<and> length prices = length symbols"
    by (simp add: all_settle_def)
  then show ?thesis
    using routes by blast
qed

theorem oversized_batch_rejected_witness:
  "20 < length (splitSymbols example_query)
   \<and> GET_prices_symbols example_env (Some example_query) True
        example_state =
        (\<lparr>resp_status = 400, resp_success = False, resp_data = None,
          resp_error = Some ''Invalid symbols parameter'',
          resp_message = Some ''Provide 1-20 valid symbols separated by commas''\<rparr>,
         example_state)
   \<and> 20 < length oversized_batch
   \<and> POST_prices_symbols example_env oversized_batch example_state =
        (\<lparr>resp_status = 400, resp_success = False, resp_data = None,
          resp_error = Some ''Invalid symbols parameter'',
          resp_message = Some ''Provide 1-20 valid symbols in an array''\<rparr>, example_state)
   \<and> (\<exists>prices.
        fst (getMultipleStockPrices example_env oversized_batch True example_state)
          = Inr prices
        \<and> length prices = 21)"
proof -
  have p: "20 < length oversized_batch"
    by (simp add: oversized_batch_def)
  then have g: "20 < length (splitSymbols example_query)"
    by (simp add: ev_split21)
  have l: "length oversized_batch = 21"
    by (simp add: oversized_batch_def)
  show ?thesis
    using oversized_batch_rejected [of example_query example_env True example_state
        oversized_batch] g p l
    by auto
qed

section \<open>Properties of the push notifications\<close>

text \<open>
  C6, as the code has it. \<open>sendBulkPushNotifications\<close> does not touch the device
  tokens: after every bulk dispatch the table of tokens is what it was, whatever the
  gateway reported for each token. A failed delivery is logged, and the call returns
  the number of results without an error.
\<close>

theorem sendBulk_leaves_tokens:
  "db_deviceToken (snd (sendBulkPushNotifications e tokens payload st)) = db_deviceToken st
   \<and> (\<not> window_defined e \<and> tokens \<noteq> [] \<and> (adminApp st \<or> firebase_admin_throws e = None)
        \<and> sendToDevice e tokens payload = DevicesResponse results \<longrightarrow>
      fst (sendBulkPushNotifications e tokens payload st) =
        Inr (length (filter (\<lambda>r. r = None) results)))"
proof -
  obtain a st1 where adm: "getFirebaseAdmin e st = (a, st1)"
    by (cases "getFirebaseAdmin e st")
  have db: "db_deviceToken st1 = db_deviceToken st"
    using getFirebaseAdmin_frame(1) [of e st] adm by simp
  have frame: "db_deviceToken (snd (sendBulkPushNotifications e tokens payload st)) =
      db_deviceToken st"
    using adm db
    by (simp add: sendBulkPushNotifications_def Let_def emit_def
        split: sum.splits GatewayOutcome.splits)
  have cnt: "fst (sendBulkPushNotifications e tokens payload st) =
        Inr (length (filter (\<lambda>r. r = None) results))"
    if "\<not> window_defined e" "tokens \<noteq> []" "adminApp st \<or> firebase_admin_throws e = None"
      "sendToDevice e tokens payload = DevicesResponse results"
  proof -
    have "a = Inr ()"
      using getFirebaseAdmin_ok [of e st] that(1,3) adm by simp
    then show ?thesis
      using that adm
      by (simp add: sendBulkPushNotifications_def Let_def results_forEach_count)
  qed
  show ?thesis
    using frame cnt by blast
qed

theorem sendBulk_leaves_tokens_witness:
  "db_deviceToken (snd (sendBulkPushNotifications example_env
      [''token-1'', ''token-2'', ''token-3''] example_payload example_state)) =
     db_deviceToken example_state
   \<and> fst (sendBulkPushNotifications example_env [''token-1'', ''token-2'', ''token-3'']
        example_payload example_state) = Inr 2"
  using sendBulk_leaves_tokens [of example_env "[''token-1'', ''token-2'', ''token-3'']"
      example_payload example_state
      "[None, Some ''messaging/registration-token-not-registered'', None]"]
  by (simp add: example_gateway example_env_simps example_state_simps)

text \<open>
  C6 as stated fails: after a dispatch to three tokens of which the gateway reports the
  second as not registered, the call returns 2 and the second token is still active.
\<close>

theorem invalid_token_stays_active:
  "map (\<lambda>d. (d_token d, d_isActive d)) (db_deviceToken example_state) =
     [(''token-1'', True), (''token-2'', True), (''token-3'', True)]
   \<and> sendToDevice example_env [''token-1'', ''token-2'', ''token-3''] example_payload =
        DevicesResponse [None, Some ''messaging/registration-token-not-registered'', None]
   \<and> fst (sendBulkPushNotifications example_env [''token-1'', ''token-2'', ''token-3'']
        example_payload example_state) = Inr 2
   \<and> map (\<lambda>d. (d_token d, d_isActive d))
        (db_deviceToken (snd (sendBulkPushNotifications example_env
          [''token-1'', ''token-2'', ''token-3''] example_payload example_state))) =
     [(''token-1'', True), (''token-2'', True), (''token-3'', True)]"
  by (simp add: sendBulkPushNotifications_def getFirebaseAdmin_def emit_def Let_def
      example_gateway example_tokens example_env_simps example_state_simps)

text \<open>
  C7, as the code has it. On the server, a dispatch to \<open>n\<close> tokens for which the
  gateway reports one result per token, \<open>k\<close> of them with an error, hands all the
  tokens to the gateway in one call and returns \<open>n - k\<close>. On the server the call never
  raises: when the Admin SDK cannot be initialised or the gateway call is rejected, the
  error is caught and the result is 0. The call raises only where \<open>window\<close> is defined,
  and then nothing has been sent.
\<close>

theorem sendBulk_partial_failure:
  "(\<not> window_defined e \<and> tokens \<noteq> [] \<and> (adminApp st \<or> firebase_admin_throws e = None)
      \<and> sendToDevice e tokens payload = DevicesResponse results
      \<and> length results = length tokens \<longrightarrow>
        fst (sendBulkPushNotifications e tokens payload st) =
          Inr (length tokens - length (filter (\<lambda>r. r \<noteq> None) results))
        \<and> trace (snd (sendBulkPushNotifications e tokens payload st)) =
            trace st @ [SentToDevice tokens])
   \<and> (\<not> window_defined e
       \<and> ((\<not> adminApp st \<and> firebase_admin_throws e = Some m)
            \<or> sendToDevice e tokens payload = GatewayRejects m) \<longrightarrow>
        fst (sendBulkPushNotifications e tokens payload st) = Inr 0)
   \<and> (\<not> window_defined e \<longrightarrow>
        (\<exists>n. fst (sendBulkPushNotifications e tokens payload st) = Inr n))
   \<and> (fst (sendBulkPushNotifications e tokens payload st) = Inl err \<longrightarrow>
        window_defined e \<and> snd (sendBulkPushNotifications e tokens payload st) = st)"
proof -
  obtain a st1 where adm: "getFirebaseAdmin e st = (a, st1)"
    by (cases "getFirebaseAdmin e st")
  have tr: "trace st1 = trace st"
    using getFirebaseAdmin_frame(2) [of e st] adm by simp
  have partial: "fst (sendBulkPushNotifications e tokens payload st) =
          Inr (length tokens - length (filter (\<lambda>r. r \<noteq> None) results))
        \<and> trace (snd (sendBulkPushNotifications e tokens payload st)) =
            trace st @ [SentToDevice tokens]"
    if "\<not> window_defined e" "tokens \<noteq> []" "adminApp st \<or> firebase_admin_throws e = None"
      "sendToDevice e tokens payload = DevicesResponse results" "length results = length tokens"
  proof -
    have "a = Inr ()"
      using getFirebaseAdmin_ok [of e st] that(1,3) adm by simp
    then show ?thesis
      using that adm tr
      by (simp add: sendBulkPushNotifications_def Let_def emit_def results_forEach_count
          successes_and_failures)
  qed
  have wholesale: "fst (sendBulkPushNotifications e tokens payload st) = Inr 0"
    if "\<not> window_defined e"
      "(\<not> adminApp st \<and> firebase_admin_throws e = Some m)
         \<or> sendToDevice e tokens payload = GatewayRejects m"
    using that
    by (auto simp: sendBulkPushNotifications_def getFirebaseAdmin_def Let_def
        split: prod.splits sum.splits option.splits)
  have server: "\<exists>n. fst (sendBulkPushNotifications e tokens payload st) = Inr n"
    if "\<not> window_defined e"
    using that
    by (auto simp: sendBulkPushNotifications_def Let_def
        split: prod.splits sum.splits GatewayOutcome.splits)
  have raised: "window_defined e \<and> snd (sendBulkPushNotifications e tokens payload st) = st"
    if "fst (sendBulkPushNotifications e tokens payload st) = Inl err"
    using that
    by (auto simp: sendBulkPushNotifications_def Let_def
        split: prod.splits sum.splits GatewayOutcome.splits if_splits)
  show ?thesis
    using partial wholesale server raised by blast
qed

theorem sendBulk_partial_failure_witness:
  "\<not> window_defined example_env
   \<and> [''token-1'', ''token-2'', ''token-3''] \<noteq> []
   \<and> firebase_admin_throws example_env = None
   \<and> sendToDevice example_env [''token-1'', ''token-2'', ''token-3''] example_payload =
        DevicesResponse [None, Some ''messaging/registration-token-not-registered'', None]
   \<and> fst (sendBulkPushNotifications example_env [''token-1'', ''token-2'', ''token-3'']
        example_payload example_state) = Inr 2
   \<and> trace (snd (sendBulkPushNotifications example_env [''token-1'', ''token-2'', ''token-3'']
        example_payload example_state)) = [SentToDevice [''token-1'', ''token-2'', ''token-3'']]"
  using sendBulk_partial_failure [where e = example_env
      and tokens = "[''token-1'', ''token-2'', ''token-3'']" and st = example_state
      and payload = example_payload
      and results = "[None, Some ''messaging/registration-token-not-registered'', None]"]
  by (simp add: example_gateway example_env_simps example_state_simps)

text \<open>
  C7 as stated fails in its last part: with credentials that the Admin SDK rejects the
  call returns 0 and does not raise, and in a browser the call raises although the
  gateway is configured and would answer.
\<close>

theorem gateway_errors_swallowed:
  "\<not> window_defined misconfigured_env
   \<and> \<not> adminApp example_state
   \<and> firebase_admin_throws misconfigured_env = Some ''Failed to parse private key''
   \<and> fst (sendBulkPushNotifications misconfigured_env [''token-1'', ''token-2'', ''token-3'']
        example_payload example_state) = Inr 0
   \<and> firebase_admin_throws browser_env = None
   \<and> sendToDevice browser_env [''token-1'', ''token-2'', ''token-3''] example_payload =
        DevicesResponse [None, Some ''messaging/registration-token-not-registered'', None]
   \<and> fst (sendBulkPushNotifications browser_env [''token-1'', ''token-2'', ''token-3'']
        example_payload example_state) =
      Inl (Error ''sendBulkPushNotifications should only be called on the server side'')"
  by (simp add: sendBulkPushNotifications_def getFirebaseAdmin_def emit_def Let_def
      misconfigured_env_def browser_env_def example_gateway example_env_simps
      example_state_simps)

section \<open>Properties of the alert routes\<close>

text \<open>
  C8. For every alert \<open>A\<close> of the table (with a non-empty id, as every generated id is)
  and a database that answers, \<open>DELETE /api/alerts?id=\<close> with the id of \<open>A\<close> removes
  \<open>A\<close>, removes every triggered alert whose \<open>alertId\<close> is the id of \<open>A\<close>, and leaves
  the triggered alerts of every other alert in the table, unchanged and in their order.
\<close>

theorem delete_alert_cascades:
  "A \<in> set (db_alert st) \<and> a_id A \<noteq> [] \<and> deleteMany_throws e = None \<longrightarrow>
     db_alert (snd (DELETE_alerts e (Some (a_id A)) None st)) =
       filter (\<lambda>a. a_id a \<noteq> a_id A) (db_alert st)
     \<and> db_triggeredAlert (snd (DELETE_alerts e (Some (a_id A)) None st)) =
       filter (\<lambda>t. t_alertId t \<noteq> a_id A) (db_triggeredAlert st)
     \<and> (\<forall>t \<in> set (db_triggeredAlert (snd (DELETE_alerts e (Some (a_id A)) None st))).
           t_alertId t \<noteq> a_id A)
     \<and> (\<forall>t \<in> set (db_triggeredAlert st). t_alertId t \<noteq> a_id A \<longrightarrow>
           t \<in> set (db_triggeredAlert (snd (DELETE_alerts e (Some (a_id A)) None st))))"
proof (intro impI)
  assume h: "A \<in> set (db_alert st) \<and> a_id A \<noteq> [] \<and> deleteMany_throws e = None"
  let ?st' = "snd (DELETE_alerts e (Some (a_id A)) None st)"
  have st': "?st' = snd (alert_deleteMany [a_id A] (emit (AlertsDeleteMany [a_id A]) st))"
    using h by (simp add: DELETE_alerts_def Let_def case_prod_unfold)
  have al: "db_alert ?st' = filter (\<lambda>a. a_id a \<noteq> a_id A) (db_alert st)"
    using h alert_deleteMany_single(2) [of A st] by (simp add: st' alert_deleteMany_frame)
  have tr: "db_triggeredAlert ?st' = filter (\<lambda>t. t_alertId t \<noteq> a_id A) (db_triggeredAlert st)"
    using h alert_deleteMany_single(1) [of A st] by (simp add: st' alert_deleteMany_frame)
  show "db_alert ?st' = filter (\<lambda>a. a_id a \<noteq> a_id A) (db_alert st)
     \<and> db_triggeredAlert ?st' = filter (\<lambda>t. t_alertId t \<noteq> a_id A) (db_triggeredAlert st)
     \<and> (\<forall>t \<in> set (db_triggeredAlert ?st'). t_alertId t \<noteq> a_id A)
     \<and> (\<forall>t \<in> set (db_triggeredAlert st). t_alertId t \<noteq> a_id A \<longrightarrow>
           t \<in> set (db_triggeredAlert ?st'))"
    using al tr by simp
qed

theorem delete_alert_cascades_witness:
  "map a_id (db_alert example_state) = [''a1'', ''a2'']
   \<and> deleteMany_throws example_env = None
   \<and> map (\<lambda>t. (t_id t, t_alertId t)) (db_triggeredAlert example_state) =
        [(''t1'', ''a1''), (''t2'', ''a2''), (''t3'', ''a1'')]
   \<and> map a_id (db_alert (snd (DELETE_alerts example_env (Some ''a1'') None example_state))) =
        [''a2'']
   \<and> map (\<lambda>t. (t_id t, t_alertId t))
        (db_triggeredAlert (snd (DELETE_alerts example_env (Some ''a1'') None example_state))) =
        [(''t2'', ''a2'')]"
proof -
  define A where "A = \<lparr>a_id = ''a1'', a_symbol = ''AAPL'', a_targetPrice = 150,
       a_condition = ABOVE, a_isActive = True, a_createdAt = 0, a_updatedAt = 0\<rparr>"
  have id: "a_id A = ''a1''"
    by (simp add: A_def)
  have h: "A \<in> set (db_alert example_state) \<and> ''a1'' \<noteq> []
      \<and> deleteMany_throws example_env = None"
    by (simp add: example_alerts(1) example_env_simps A_def)
  note c = mp [OF delete_alert_cascades [of A example_state example_env, unfolded id] h]
  have al: "db_alert (snd (DELETE_alerts example_env (Some ''a1'') None example_state)) =
       filter (\<lambda>a. a_id a \<noteq> ''a1'') (db_alert example_state)"
    by (rule c [THEN conjunct1])
  have tr: "db_triggeredAlert (snd (DELETE_alerts example_env (Some ''a1'') None example_state)) =
       filter (\<lambda>t. t_alertId t \<noteq> ''a1'') (db_triggeredAlert example_state)"
    by (rule c [THEN conjunct2, THEN conjunct1])
  have 1: "map a_id (db_alert example_state) = [''a1'', ''a2'']"
    by (simp add: example_alerts(1))
  have 2: "map a_id (db_alert (snd (DELETE_alerts example_env (Some ''a1'') None
      example_state))) = [''a2'']"
    by (simp add: al example_alerts(1))
  have 3: "map (\<lambda>t. (t_id t, t_alertId t))
        (db_triggeredAlert (snd (DELETE_alerts example_env (Some ''a1'') None example_state))) =
        [(''t2'', ''a2'')]"
    by (simp only: tr example_alerts(3))
  show ?thesis
    using 1 2 3 example_alerts(2) example_env_simps(8) by (intro conjI)
qed

section \<open>Properties of the alert card\<close>

text \<open>
  C2, as the code has it. For every active alert and every current price that is
  present and not zero, the card shows the alert as reached (text \<open>Target Reached!\<close>,
  green for ABOVE, red for BELOW) exactly when the condition is ABOVE and the price is
  at least the target, or the condition is BELOW and the price is at most the target.
  A price equal to a non-zero target is reached in both directions; for ABOVE a price
  of the target minus 0.01 is not reached, and for BELOW a price of the target plus
  0.01 is not reached. An alert that is not active, and an alert without a price or with
  the price 0, is never shown as reached.
\<close>

theorem crossed_classification:
  "(a_isActive alert \<and> p \<noteq> 0 \<longrightarrow>
      (getStatusText alert (Some p) = ''Target Reached!'') =
        ((a_condition alert = ABOVE \<and> p \<ge> a_targetPrice alert)
         \<or> (a_condition alert = BELOW \<and> p \<le> a_targetPrice alert))
      \<and> (getStatusColor alert (Some p) = ''bg-green-50 border-green-200'') =
            (a_condition alert = ABOVE \<and> p \<ge> a_targetPrice alert)
      \<and> (getStatusColor alert (Some p) = ''bg-red-50 border-red-200'') =
            (a_condition alert = BELOW \<and> p \<le> a_targetPrice alert))
   \<and> (a_isActive alert \<and> a_targetPrice alert \<noteq> 0 \<longrightarrow>
      getStatusText alert (Some (a_targetPrice alert)) = ''Target Reached!'')
   \<and> (a_condition alert = ABOVE \<longrightarrow>
      getStatusText alert (Some (a_targetPrice alert - 1 / 100)) \<noteq> ''Target Reached!'')
   \<and> (a_condition alert = BELOW \<longrightarrow>
      getStatusText alert (Some (a_targetPrice alert + 1 / 100)) \<noteq> ''Target Reached!'')
   \<and> (\<not> a_isActive alert \<or> \<not> truthy currentPrice \<longrightarrow>
      getStatusText alert currentPrice \<noteq> ''Target Reached!'')"
proof -
  have cond: "a_condition alert = BELOW" if "a_condition alert \<noteq> ABOVE"
    using that by (cases "a_condition alert") simp_all
  have 1: "(getStatusText alert (Some p) = ''Target Reached!'') =
        ((a_condition alert = ABOVE \<and> p \<ge> a_targetPrice alert)
         \<or> (a_condition alert = BELOW \<and> p \<le> a_targetPrice alert))"
    if "a_isActive alert" "p \<noteq> 0"
    using that cond by (auto simp: getStatusText_def)
  have 2: "(getStatusColor alert (Some p) = ''bg-green-50 border-green-200'') =
            (a_condition alert = ABOVE \<and> p \<ge> a_targetPrice alert)"
    "(getStatusColor alert (Some p) = ''bg-red-50 border-red-200'') =
            (a_condition alert = BELOW \<and> p \<le> a_targetPrice alert)"
    if "a_isActive alert" "p \<noteq> 0"
    using that cond by (auto simp: getStatusColor_def)
  have 3: "getStatusText alert (Some (a_targetPrice alert)) = ''Target Reached!''"
    if "a_isActive alert" "a_targetPrice alert \<noteq> 0"
    using that by (simp add: getStatusText_def)
  have 4: "getStatusText alert (Some (a_targetPrice alert - 1 / 100)) \<noteq> ''Target Reached!''"
    if "a_condition alert = ABOVE"
    using that by (simp add: getStatusText_def)
  have 5: "getStatusText alert (Some (a_targetPrice alert + 1 / 100)) \<noteq> ''Target Reached!''"
    if "a_condition alert = BELOW"
    using that by (simp add: getStatusText_def)
  have 6: "getStatusText alert currentPrice \<noteq> ''Target Reached!''"
    if "\<not> a_isActive alert \<or> \<not> truthy currentPrice"
    using that by (auto simp: getStatusText_def truthy_def split: option.splits)
  show ?thesis
    using 1 2 3 4 5 6 by blast
qed

theorem crossed_classification_witness:
  "a_isActive below_alert \<and> a_condition below_alert = BELOW
   \<and> a_targetPrice below_alert = 5
   \<and> getStatusText below_alert (Some 5) = ''Target Reached!''
   \<and> getStatusText below_alert (Some (5 + 1 / 100)) \<noteq> ''Target Reached!''
   \<and> getStatusColor below_alert (Some 5) = ''bg-red-50 border-red-200''
   \<and> getStatusText below_alert (Some 4) = ''Target Reached!''"
  using crossed_classification [of below_alert 5 None]
    crossed_classification [of below_alert 4 None]
  by (simp add: below_alert_def)

text \<open>
  C2 as stated fails: an inactive ABOVE alert with target 100 is shown as \<open>Inactive\<close> at
  the price 150 and at the price 100, and an active BELOW alert with target 5 is shown
  as \<open>Loading price...\<close> at the price 0.
\<close>

theorem inactive_or_zero_not_crossed:
  "a_condition inactive_alert = ABOVE \<and> a_targetPrice inactive_alert \<le> 150
   \<and> getStatusText inactive_alert (Some 150) = ''Inactive''
   \<and> getStatusColor inactive_alert (Some 150) = ''bg-gray-100 border-gray-300''
   \<and> getStatusText inactive_alert (Some (a_targetPrice inactive_alert)) = ''Inactive''
   \<and> a_condition below_alert = BELOW \<and> 0 \<le> a_targetPrice below_alert
   \<and> getStatusText below_alert (Some 0) = ''Loading price...''
   \<and> getStatusColor below_alert (Some 0) = ''bg-yellow-50 border-yellow-200''"
  by (simp add: getStatusText_def getStatusColor_def inactive_alert_def below_alert_def)

end
